theory Spec2Isabelle
  imports Main
begin

section \<open>Casper snap: argument formatting, transaction decoding, signing\<close>

text \<open>
  The development follows \<^verbatim>\<open>packages/snap/src/utils.ts\<close> (formatter and decoder) and
  \<^verbatim>\<open>packages/snap/src/index.tsx\<close> (address derivation and signing). Objects of the
  Casper SDK are modelled by the observations the snap makes on them: a field the code
  reads is a field of a record, a method the code calls without arguments is a field
  holding the method's result, and a library function is a field of a record of
  collaborators. Thrown exceptions are the \<open>Inl\<close> side of a sum.
\<close>

subsection \<open>Thrown values\<close>

text \<open>
  A thrown value is known by its \<^verbatim>\<open>message\<close> and by the two renderings the snap makes
  of it, \<^verbatim>\<open>JSON.stringify(error)\<close> and \<^verbatim>\<open>`${error}`\<close>. \<open>newError\<close> is
  \<^verbatim>\<open>new Error(message)\<close>, which has no enumerable property.
\<close>

record js_error =
  message :: string
  stringified :: string
  rendered :: string

definition newError :: "string \<Rightarrow> js_error" where
  "newError msg = \<lparr>message = msg, stringified = ''{}'', rendered = ''Error: '' @ msg\<rparr>"

subsection \<open>Typed values and their display form\<close>

text \<open>
  The arguments of a deploy are \<^verbatim>\<open>CLValue\<close> containers: a \<^verbatim>\<open>type\<close> and, in a
  field named after the type (\<^verbatim>\<open>option\<close>, \<^verbatim>\<open>publicKey\<close>, \<^verbatim>\<open>list\<close>,
  \<^verbatim>\<open>map\<close>, ...), the typed payload. There is one constructor per branch of the
  \<^verbatim>\<open>switch\<close> in \<^verbatim>\<open>parseDeployArg\<close>: the option payload is \<open>None\<close> when
  \<^verbatim>\<open>isEmpty()\<close>, the public key is \<open>None\<close> when the \<^verbatim>\<open>publicKey\<close> field is
  missing, and \<open>CLOther\<close> stands for every other type tag. \<open>CLAccountHash\<close> is an
  \<^verbatim>\<open>AccountHash\<close> instance, which is not a \<^verbatim>\<open>CLValue\<close>.
\<close>

datatype clvalue =
    CLUnit
  | CLKey string
  | CLURef string
  | CLOption "clvalue option"
  | CLList "clvalue list"
  | CLByteArray string
  | CLResult bool clvalue
  | CLMap "(string \<times> clvalue) list"
  | CLTuple1 clvalue
  | CLTuple2 clvalue clvalue
  | CLTuple3 clvalue clvalue clvalue
  | CLPublicKey "string option"
  | CLAccountHash string
  | CLOther string

text \<open>
  What the SDK and the engine answer: \<^verbatim>\<open>toString()\<close> of a value, the
  \<^verbatim>\<open>toString()\<close> of its \<^verbatim>\<open>type\<close>, the text a template literal produces for its
  \<^verbatim>\<open>vectorType\<close> property, and the \<^verbatim>\<open>TypeError\<close> thrown when the named member
  is read from \<^verbatim>\<open>undefined\<close> or called without being there.
\<close>

record sdk =
  toString :: "clvalue \<Rightarrow> string"
  typeToString :: "clvalue \<Rightarrow> string"
  vectorType :: "clvalue \<Rightarrow> string"
  typeError :: "string \<Rightarrow> js_error"

text \<open>The result type \<^verbatim>\<open>string | any[]\<close> of the formatter.\<close>

datatype display = Str string | Arr "display list"

fun isArray :: "display \<Rightarrow> bool" where
  "isArray (Arr _) = True"
| "isArray (Str _) = False"

text \<open>
  \<^verbatim>\<open>parseDeployArg\<close>. The Option and PublicKey branches read the payload through the
  container's field, \<^verbatim>\<open>option.option\<close> and \<^verbatim>\<open>publicKey\<close>. The List, Result,
  Map and Tuple branches cast the container to the payload's class and read
  \<^verbatim>\<open>elements\<close>, \<^verbatim>\<open>value()\<close> and \<^verbatim>\<open>getMap()\<close> on the container itself, which
  has none of them: \<^verbatim>\<open>elements.map\<close> reads a member of \<^verbatim>\<open>undefined\<close> and the two
  methods are not functions, so each of these branches throws. An \<^verbatim>\<open>AccountHash\<close>
  has no \<^verbatim>\<open>type\<close>: reading its type id in the first statement throws before the
  default branch can test for it.
\<close>

fun parseDeployArg :: "sdk \<Rightarrow> clvalue \<Rightarrow> js_error + display" where
  "parseDeployArg k CLUnit = Inr (Str ''CLValue Unit'')"
| "parseDeployArg k (CLKey x) = Inr (Str (toString k (CLKey x)))"
| "parseDeployArg k (CLURef x) = Inr (Str (toString k (CLURef x)))"
| "parseDeployArg k (CLOption (Some v)) = parseDeployArg k v"
| "parseDeployArg k (CLOption None) =
     Inr (Str (toString k (CLOption None) @ '' '' @ typeToString k (CLOption None)))"
| "parseDeployArg k (CLList elements) = Inl (typeError k ''map'')"
| "parseDeployArg k (CLByteArray x) = Inr (Str (toString k (CLByteArray x)))"
| "parseDeployArg k (CLResult isSuccess v) = Inl (typeError k ''value'')"
| "parseDeployArg k (CLMap entries) = Inl (typeError k ''getMap'')"
| "parseDeployArg k (CLTuple1 v) = Inl (typeError k ''value'')"
| "parseDeployArg k (CLTuple2 a b) = Inl (typeError k ''value'')"
| "parseDeployArg k (CLTuple3 a b c) = Inl (typeError k ''value'')"
| "parseDeployArg k (CLPublicKey pk) =
     Inr (Str (case pk of Some hex \<Rightarrow> hex | None \<Rightarrow> []))"
| "parseDeployArg k (CLAccountHash prefixed) = Inl (typeError k ''getTypeID'')"
| "parseDeployArg k (CLOther x) = Inr (Str (toString k (CLOther x)))"

text \<open>
  \<^verbatim>\<open>sanitiseNestedLists\<close> is called only from the mapping functions of the List and
  Tuple branches.
\<close>

definition sanitiseNestedLists :: "sdk \<Rightarrow> clvalue \<Rightarrow> js_error + display" where
  "sanitiseNestedLists k v =
     (case parseDeployArg k v of
        Inl e \<Rightarrow> Inl e
      | Inr parsedValue \<Rightarrow>
          Inr (if isArray parsedValue then Str (''<'' @ vectorType k v @ ''>[...]'')
               else parsedValue))"

subsection \<open>Decimal strings and the fixed-point division of motes\<close>

text \<open>
  \<^verbatim>\<open>convertMotesToCasper\<close> calls \<^verbatim>\<open>FixedNumber\<close> of
  \<^verbatim>\<open>@ethersproject/bignumber\<close>, whose default format is \<^verbatim>\<open>fixed128x18\<close>. The
  library is not part of the repository; the definitions below restate its
  \<^verbatim>\<open>parseFixed\<close>, \<^verbatim>\<open>formatFixed\<close>, \<^verbatim>\<open>FixedNumber.from\<close>, \<^verbatim>\<open>divUnsafe\<close> and
  \<^verbatim>\<open>toString\<close> (version 5). A \<^verbatim>\<open>FixedNumber\<close> is represented by its decimal text
  \<^verbatim>\<open>_value\<close>, the only field those functions read.
\<close>

definition digitChar :: "int \<Rightarrow> char" where
  "digitChar d = char_of (48 + d)"

definition digitVal :: "char \<Rightarrow> int" where
  "digitVal c = of_char c - 48"

definition isDigit :: "char \<Rightarrow> bool" where
  "isDigit c = (48 \<le> (of_char c :: int) \<and> (of_char c :: int) \<le> 57)"

function natToString :: "int \<Rightarrow> string" where
  "natToString n =
     (if n < 10 then [digitChar n] else natToString (n div 10) @ [digitChar (n mod 10)])"
  by pat_completeness auto
termination
  by (relation "measure nat") auto

declare natToString.simps [simp del]

definition intToString :: "int \<Rightarrow> string" where
  "intToString i = (if i < 0 then ''-'' @ natToString (- i) else natToString i)"

definition bigNumberFrom :: "string \<Rightarrow> int" where
  "bigNumberFrom s = foldl (\<lambda>acc c. 10 * acc + digitVal c) 0 s"

fun split :: "char \<Rightarrow> string \<Rightarrow> string list" where
  "split sep [] = [[]]"
| "split sep (c # cs) =
     (if c = sep then [] # split sep cs
      else (case split sep cs of [] \<Rightarrow> [[c]] | p # ps \<Rightarrow> (c # p) # ps))"

definition trimTrailingZeros :: "string \<Rightarrow> string" where
  "trimTrailingZeros s = rev (dropWhile (\<lambda>c. c = CHR ''0'') (rev s))"

definition padEnd :: "nat \<Rightarrow> string \<Rightarrow> string" where
  "padEnd n s = s @ replicate (n - length s) CHR ''0''"

definition padStart :: "nat \<Rightarrow> string \<Rightarrow> string" where
  "padStart n s = replicate (n - length s) CHR ''0'' @ s"

datatype fixed_fault =
    InvalidDecimalValue
  | MissingValue
  | TooManyDecimalPoints
  | FractionalComponentExceedsDecimals
  | DivisionByZero

text \<open>
  \<^verbatim>\<open>parseFixed(value, decimals)\<close>: the text must match \<^verbatim>\<open>/^-?[0-9.]+$/\<close>, must not
  be a lone point, and may hold one point at most; the fraction, without its trailing
  zeros, may not be longer than \<open>decimals\<close> digits.
\<close>

definition parseFixed :: "string \<Rightarrow> nat \<Rightarrow> fixed_fault + int" where
  "parseFixed value0 decimals =
     (let negative = (take 1 value0 = ''-'');
          body = (if negative then drop 1 value0 else value0)
      in if body = [] \<or> \<not> list_all (\<lambda>c. isDigit c \<or> c = CHR ''.'') body
         then Inl InvalidDecimalValue
         else if body = ''.'' then Inl MissingValue
         else
           (let comps = split CHR ''.'' body
            in if length comps > 2 then Inl TooManyDecimalPoints
               else
                 (let whole0 = hd comps;
                      fraction0 = (if length comps = 2 then comps ! 1 else []);
                      whole = (if whole0 = [] then ''0'' else whole0);
                      fraction1 = trimTrailingZeros (if fraction0 = [] then ''0'' else fraction0)
                  in if length fraction1 > decimals
                     then Inl FractionalComponentExceedsDecimals
                     else
                       (let fraction = padEnd decimals (if fraction1 = [] then ''0'' else fraction1);
                            wei = bigNumberFrom whole * 10 ^ decimals + bigNumberFrom fraction
                        in Inr (if negative then - wei else wei)))))"

text \<open>
  \<^verbatim>\<open>formatFixed(value, decimals)\<close>: whole part, point, and the fraction padded to
  \<open>decimals\<close> digits and stripped of trailing zeros, of which one digit always stays.
  With no decimals the whole part stands alone.
\<close>

definition formatFixed :: "int \<Rightarrow> nat \<Rightarrow> string" where
  "formatFixed value0 decimals =
     (let negative = (value0 < 0);
          v = \<bar>value0\<bar>;
          multiplier = 10 ^ decimals;
          padded = padStart decimals (natToString (v mod multiplier));
          stripped = trimTrailingZeros padded;
          fraction = (if stripped = [] then ''0'' else stripped);
          whole = natToString (v div multiplier);
          shown = (if decimals = 0 then whole else whole @ ''.'' @ fraction)
      in if negative then ''-'' @ shown else shown)"

type_synonym fixed_number = string

definition fixedDecimals :: nat where
  "fixedDecimals = 18"

definition FixedNumber_fromString :: "string \<Rightarrow> fixed_fault + fixed_number" where
  "FixedNumber_fromString v =
     (case parseFixed v fixedDecimals of
        Inl e \<Rightarrow> Inl e
      | Inr numeric \<Rightarrow> Inr (formatFixed numeric fixedDecimals))"

definition FixedNumber_fromValue :: "int \<Rightarrow> nat \<Rightarrow> fixed_fault + fixed_number" where
  "FixedNumber_fromValue v decimals = FixedNumber_fromString (formatFixed v decimals)"

text \<open>Division of big numbers truncates towards zero and throws on a zero divisor.\<close>

definition bigNumberDiv :: "int \<Rightarrow> int \<Rightarrow> fixed_fault + int" where
  "bigNumberDiv a b =
     (if b = 0 then Inl DivisionByZero
      else Inr (sgn a * sgn b * (\<bar>a\<bar> div \<bar>b\<bar>)))"

definition divUnsafe :: "fixed_number \<Rightarrow> fixed_number \<Rightarrow> fixed_fault + fixed_number" where
  "divUnsafe this other =
     (case parseFixed this fixedDecimals of
        Inl e \<Rightarrow> Inl e
      | Inr a \<Rightarrow>
          (case parseFixed other fixedDecimals of
             Inl e \<Rightarrow> Inl e
           | Inr b \<Rightarrow>
               (case bigNumberDiv (a * 10 ^ fixedDecimals) b of
                  Inl e \<Rightarrow> Inl e
                | Inr q \<Rightarrow> FixedNumber_fromValue q fixedDecimals)))"

text \<open>
  \<^verbatim>\<open>convertMotesToCasper\<close>: whatever the library throws is logged and replaced by
  \<^verbatim>\<open>'0'\<close>.
\<close>

definition convertMotesToCasper :: "string \<Rightarrow> string" where
  "convertMotesToCasper motesAmount =
     (case FixedNumber_fromString motesAmount of
        Inl error \<Rightarrow> ''0''
      | Inr motes \<Rightarrow>
          (case FixedNumber_fromValue 1000000000 0 of
             Inl error \<Rightarrow> ''0''
           | Inr divisor \<Rightarrow>
               (case divUnsafe motes divisor of
                  Inl error \<Rightarrow> ''0''
                | Inr result \<Rightarrow> result)))"

subsection \<open>Transactions as the decoder reads them\<close>

type_synonym named_args = "(string \<times> clvalue) list"

record stored_contract =
  contractArgs :: named_args
  entryPoint :: string

text \<open>
  The session of a deploy: its six optional variants (for transfer and module bytes only
  the \<^verbatim>\<open>args.args\<close> map is read), the results of the three SDK predicates the decoder
  calls on it, and the text of its \<^verbatim>\<open>bytes()\<close>, which the SDK may refuse to serialise.
\<close>

record executable_deploy_item =
  transfer :: "named_args option"
  moduleBytes :: "named_args option"
  storedContractByHash :: "stored_contract option"
  storedContractByName :: "stored_contract option"
  storedVersionedContractByHash :: "stored_contract option"
  storedVersionedContractByName :: "stored_contract option"
  isModuleBytes :: bool
  isStoredContractByHash :: bool
  isStoredContractByName :: bool
  bytes :: "js_error + string"

record deploy =
  isTransfer :: bool
  session :: executable_deploy_item
  headerBodyHash :: "string option"
  headerGasPrice :: string

type_synonym byte_array = "nat list"

text \<open>
  A transaction: the hex forms of the initiator's public key and account hash, the legacy
  deploy or the version-1 payload behind it, its hash in hex, chain name, the locale
  rendering of its timestamp, its own arguments and entry point, and the approvals
  (signature and signer) attached so far.
\<close>

record transaction =
  initiatorPublicKey :: "string option"
  initiatorAccountHash :: "string option"
  getDeploy :: "deploy option"
  getTransactionV1 :: bool
  hash :: string
  txChainName :: string
  txTimestamp :: string
  txArgs :: named_args
  entryPointBytes :: string
  customEntryPoint :: "string option"
  entryPointType :: string
  approvals :: "(byte_array \<times> string) list"

text \<open>
  A property of the display object holds a formatted value or \<^verbatim>\<open>undefined\<close>. The
  object is a map from property names; assigning to \<^verbatim>\<open>__proto__\<close> on an object
  literal reaches the inherited setter and creates no property.
\<close>

datatype arg_value = Undefined | Defined display

type_synonym display_object = "string \<rightharpoonup> arg_value"

definition objSet :: "display_object \<Rightarrow> string \<Rightarrow> arg_value \<Rightarrow> display_object" where
  "objSet obj key v = (if key = ''__proto__'' then obj else obj(key \<mapsto> v))"

text \<open>
  The loop \<^verbatim>\<open>args.args.forEach((argument, key) => { deployArgs[key] = parseDeployArg(argument) })\<close>
  over a JavaScript \<^verbatim>\<open>Map\<close>, whose iteration order is the list's order. What the
  formatter throws ends the loop and leaves it.
\<close>

fun forEachArg :: "sdk \<Rightarrow> named_args \<Rightarrow> display_object \<Rightarrow> js_error + display_object" where
  "forEachArg k [] deployArgs = Inr deployArgs"
| "forEachArg k ((key, argument) # rest) deployArgs =
     (case parseDeployArg k argument of
        Inl e \<Rightarrow> Inl e
      | Inr parsed \<Rightarrow> forEachArg k rest (objSet deployArgs key (Defined parsed)))"

definition parseTransferData :: "sdk \<Rightarrow> named_args \<Rightarrow> display_object" where
  "parseTransferData k transferDeploy =
     (let recipient = (case map_of transferDeploy ''target'' of
                         None \<Rightarrow> Undefined
                       | Some v \<Rightarrow> Defined (Str (toString k v)));
          amount = (case map_of transferDeploy ''amount'' of
                      None \<Rightarrow> []
                    | Some v \<Rightarrow> toString k v);
          ident = (case map_of transferDeploy ''id'' of
                     None \<Rightarrow> Undefined
                   | Some v \<Rightarrow> Defined (Str (toString k v)))
      in Map.empty
           (''Recipient'' \<mapsto> recipient,
            ''Amount'' \<mapsto> Defined (Str (convertMotesToCasper amount @ '' CSPR'')),
            ''Motes'' \<mapsto> Defined (Str amount),
            ''Transfer ID'' \<mapsto> ident))"

record deploy_info =
  deployHash :: string
  signingKey :: string
  account :: "string option"
  bodyHash :: "string option"
  chainName :: string
  timestamp :: string
  gasPrice :: "string option"
  deployType :: string
  deployArgs :: display_object

definition unparseableSession :: "executable_deploy_item \<Rightarrow> js_error" where
  "unparseableSession s =
     (case bytes s of
        Inl e \<Rightarrow> e
      | Inr code \<Rightarrow>
          newError (''Stored Contract could not be parsed.'' @ [CHR 0x0A]
                    @ ''          Provided session code: '' @ code))"

text \<open>
  The choice among the four stored-contract fields, in the order of the
  \<^verbatim>\<open>if\<close> chain; \<open>None\<close> is the branch that throws.
\<close>

definition storedContractOf :: "executable_deploy_item \<Rightarrow> stored_contract option" where
  "storedContractOf s =
     (case storedContractByHash s of
        Some c \<Rightarrow> Some c
      | None \<Rightarrow>
     (case storedContractByName s of
        Some c \<Rightarrow> Some c
      | None \<Rightarrow>
     (case storedVersionedContractByHash s of
        Some c \<Rightarrow> Some c
      | None \<Rightarrow> storedVersionedContractByName s)))"

text \<open>The display object of a deploy, as \<^verbatim>\<open>transactionToObject\<close> fills it.\<close>

definition sessionArgs :: "sdk \<Rightarrow> executable_deploy_item \<Rightarrow> js_error + display_object" where
  "sessionArgs k s =
     (case transfer s of
        Some t \<Rightarrow> Inr (parseTransferData k t)
      | None \<Rightarrow>
     (case moduleBytes s of
        Some m \<Rightarrow> forEachArg k m Map.empty
      | None \<Rightarrow>
     (case storedContractOf s of
        None \<Rightarrow> Inl (unparseableSession s)
      | Some storedContract \<Rightarrow>
          (case forEachArg k (contractArgs storedContract) Map.empty of
             Inl e \<Rightarrow> Inl e
           | Inr args \<Rightarrow>
               Inr (objSet args ''Entry Point'' (Defined (Str (entryPoint storedContract))))))))"

definition deployTypeOf :: "deploy \<Rightarrow> string" where
  "deployTypeOf d =
     (if isTransfer d then ''Transfer''
      else if isModuleBytes (session d) then ''WASM-Based Deploy''
      else if isStoredContractByHash (session d) \<or> isStoredContractByName (session d)
           then ''Contract Call''
      else ''Contract Package Call'')"

definition transactionToObject :: "sdk \<Rightarrow> transaction \<Rightarrow> string \<Rightarrow> js_error + deploy_info" where
  "transactionToObject k tx key =
     (let deployAccount = (case initiatorPublicKey tx of
                             Some hex \<Rightarrow> Some hex
                           | None \<Rightarrow> initiatorAccountHash tx)
      in case getDeploy tx of
           Some d \<Rightarrow>
             (let type = deployTypeOf d
              in case sessionArgs k (session d) of
                   Inl e \<Rightarrow> Inl e
                 | Inr args \<Rightarrow>
                     Inr \<lparr>deployHash = hash tx,
                          signingKey = key,
                          account = deployAccount,
                          bodyHash = headerBodyHash d,
                          chainName = txChainName tx,
                          timestamp = txTimestamp tx,
                          gasPrice = Some (headerGasPrice d),
                          deployType = type,
                          deployArgs = args\<rparr>)
         | None \<Rightarrow>
             if getTransactionV1 tx
             then (case forEachArg k (txArgs tx) Map.empty of
                     Inl e \<Rightarrow> Inl e
                   | Inr args \<Rightarrow>
                       Inr \<lparr>deployHash = hash tx,
                            signingKey = key,
                            account = deployAccount,
                            bodyHash = Some (entryPointBytes tx),
                            chainName = txChainName tx,
                            timestamp = txTimestamp tx,
                            gasPrice = None,
                            deployType = (case customEntryPoint tx of
                                            Some name \<Rightarrow> name
                                          | None \<Rightarrow> entryPointType tx),
                            deployArgs = args\<rparr>)
             else Inl (newError ''Unsupported transaction type''))"

subsection \<open>The snap's collaborators\<close>

type_synonym json = string

text \<open>The key the BIP-44 deriver returns, by the fields the snap reads.\<close>

record address_key =
  privateKeyBytes :: "byte_array option"
  curve :: string
  compressedPublicKey :: string
  compressedPublicKeyBytes :: byte_array
  publicKey :: string

text \<open>What the confirmation dialog of a deploy is built from.\<close>

record dialog =
  dialogOrigin :: string
  dialogInfo :: deploy_info
  dialogTransaction :: transaction

text \<open>
  The host and the libraries: \<open>deriveAddressKey\<close> is the request for the BIP-44
  entropy of coin type 506 followed by the deriver at an index; \<open>publicKeyFromBytes\<close>
  is \<^verbatim>\<open>PublicKey.fromBytes(bytes).result.toHex()\<close>; \<open>snapDialog\<close> is the
  confirmation dialog and its answer; \<open>signDetached\<close> is \<^verbatim>\<open>nacl.sign_detached\<close>;
  \<open>ecdsaSign\<close> is the \<^verbatim>\<open>signature\<close> field of \<^verbatim>\<open>ecdsaSign\<close>; \<open>validate\<close> and
  \<open>toJSON\<close> are \<^verbatim>\<open>transaction.validate()\<close> and \<^verbatim>\<open>Transaction.toJSON\<close>. Each is a
  function: the same arguments give the same answer.
\<close>

record host =
  deriveAddressKey :: "int \<Rightarrow> js_error + address_key"
  bufferFromHex :: "string \<Rightarrow> byte_array"
  publicKeyFromBytes :: "byte_array \<Rightarrow> js_error + string"
  publicKeyFromHex :: "string \<Rightarrow> js_error + string"
  fromJson :: "json \<Rightarrow> js_error + transaction"
  snapDialog :: "dialog \<Rightarrow> js_error + bool"
  signDetached :: "byte_array \<Rightarrow> byte_array \<Rightarrow> js_error + byte_array"
  sha256 :: "byte_array \<Rightarrow> byte_array"
  ecdsaSign :: "byte_array \<Rightarrow> byte_array \<Rightarrow> js_error + byte_array"
  validate :: "transaction \<Rightarrow> js_error + bool"
  toJSON :: "transaction \<Rightarrow> json"

subsection \<open>Attaching a signature\<close>

text \<open>\<^verbatim>\<open>setSignature\<close> adds an approval to the transaction it is called on.\<close>

definition setSignature :: "transaction \<Rightarrow> byte_array \<Rightarrow> string \<Rightarrow> transaction" where
  "setSignature tx signature signer = tx\<lparr>approvals := approvals tx @ [(signature, signer)]\<rparr>"

datatype sign_result = Declined | DeployResult json | ErrorResult string

text \<open>
  \<^verbatim>\<open>addSignatureAndValidateTransaction\<close> changes the transaction object it is given:
  the model returns the object's new state beside the result.
\<close>

definition addSignatureAndValidateTransaction ::
    "host \<Rightarrow> transaction \<Rightarrow> byte_array \<Rightarrow> string \<Rightarrow> (js_error + sign_result) \<times> transaction" where
  "addSignatureAndValidateTransaction h tx signature publicKeyHex =
     (case publicKeyFromHex h publicKeyHex of
        Inl e \<Rightarrow> (Inl e, tx)
      | Inr signer \<Rightarrow>
          (let signed = setSignature tx signature signer
           in case validate h signed of
                Inl e \<Rightarrow> (Inl e, signed)
              | Inr valid \<Rightarrow>
                  if valid then (Inr (DeployResult (toJSON h signed)), signed)
                  else (Inr (ErrorResult ''Unable to verify deploy after signature.''), signed)))"

subsection \<open>Deriving the address\<close>

datatype address_result = PublicKeyResult string | AddressError string

fun publicKeyField :: "address_result \<Rightarrow> string option" where
  "publicKeyField (PublicKeyResult hex) = Some hex"
| "publicKeyField (AddressError _) = None"

definition getCSPRAddress :: "host \<Rightarrow> int \<Rightarrow> js_error + address_result" where
  "getCSPRAddress h addressIndex =
     (case deriveAddressKey h addressIndex of
        Inl e \<Rightarrow> Inl e
      | Inr addressKey \<Rightarrow>
          (case publicKeyFromBytes h
                  (bufferFromHex h (''02'' @ drop 2 (compressedPublicKey addressKey))) of
             Inr hex \<Rightarrow> Inr (PublicKeyResult hex)
           | Inl error \<Rightarrow>
               Inr (AddressError
                      (rendered error @ '' Unsupported curve. Received '' @ curve addressKey
                       @ ''. '' @ natToString (int (length (compressedPublicKeyBytes addressKey)))
                       @ '' '' @ publicKey addressKey
                       @ '' '' @ drop 2 (compressedPublicKey addressKey)
                       @ '' Only Secp256K1 && Ed25519 are supported.''))))"

subsection \<open>Signing a deploy\<close>

text \<open>
  What a run of \<^verbatim>\<open>sign\<close> leaves behind: what it returned or threw, the transaction
  object it built (if it got that far) in its final state, and, in order, the dialogs it
  showed and the signatures it computed (algorithm and signed bytes).
\<close>

datatype event = DialogShown dialog | SignatureComputed string byte_array

record 'r run =
  outcome :: "js_error + 'r"
  transactionAfter :: "transaction option"
  events :: "event list"

definition promptUserDeployInfo ::
    "sdk \<Rightarrow> host \<Rightarrow> transaction \<Rightarrow> string \<Rightarrow> string \<Rightarrow> (js_error + bool) \<times> event list" where
  "promptUserDeployInfo k h tx key origin =
     (case transactionToObject k tx key of
        Inl e \<Rightarrow> (Inl e, [])
      | Inr deployInfo \<Rightarrow>
          (let content = \<lparr>dialogOrigin = origin, dialogInfo = deployInfo, dialogTransaction = tx\<rparr>
           in (snapDialog h content, [DialogShown content])))"

text \<open>
  The body of the \<^verbatim>\<open>try\<close> block of \<^verbatim>\<open>sign\<close>. Its outcome is \<open>Inr None\<close> when
  the block ends without a \<^verbatim>\<open>return\<close>, which happens when the key has no private
  key bytes.
\<close>

definition signTry ::
    "sdk \<Rightarrow> host \<Rightarrow> json \<Rightarrow> string \<Rightarrow> int \<Rightarrow> string \<Rightarrow> sign_result option run" where
  "signTry k h deployJson origin addressIndex publicKeyHex =
     (case fromJson h deployJson of
        Inl e \<Rightarrow> \<lparr>outcome = Inl e, transactionAfter = None, events = []\<rparr>
      | Inr tx \<Rightarrow>
     (let deployHash = hash tx;
          msg = bufferFromHex h deployHash
      in case deriveAddressKey h addressIndex of
        Inl e \<Rightarrow> \<lparr>outcome = Inl e, transactionAfter = Some tx, events = []\<rparr>
      | Inr addressKey \<Rightarrow>
     (case promptUserDeployInfo k h tx publicKeyHex origin of
        (Inl e, shown) \<Rightarrow> \<lparr>outcome = Inl e, transactionAfter = Some tx, events = shown\<rparr>
      | (Inr response, shown) \<Rightarrow>
          if \<not> response
          then \<lparr>outcome = Inr (Some Declined), transactionAfter = Some tx, events = shown\<rparr>
          else
     (case privateKeyBytes addressKey of
        None \<Rightarrow> \<lparr>outcome = Inr None, transactionAfter = Some tx, events = shown\<rparr>
      | Some secret \<Rightarrow>
          if curve addressKey = ''ed25519'' then
            (case signDetached h msg secret of
               Inl e \<Rightarrow> \<lparr>outcome = Inl e, transactionAfter = Some tx, events = shown\<rparr>
             | Inr signature \<Rightarrow>
                 (case addSignatureAndValidateTransaction h tx signature publicKeyHex of
                    (r, tx') \<Rightarrow>
                      \<lparr>outcome = map_sum id Some r, transactionAfter = Some tx',
                       events = shown @ [SignatureComputed ''ed25519'' msg]\<rparr>))
          else if curve addressKey = ''secp256k1'' then
            (case ecdsaSign h (sha256 h msg) secret of
               Inl e \<Rightarrow> \<lparr>outcome = Inl e, transactionAfter = Some tx, events = shown\<rparr>
             | Inr signature \<Rightarrow>
                 (case addSignatureAndValidateTransaction h tx signature publicKeyHex of
                    (r, tx') \<Rightarrow>
                      \<lparr>outcome = map_sum id Some r, transactionAfter = Some tx',
                       events = shown @ [SignatureComputed ''secp256k1'' (sha256 h msg)]\<rparr>))
          else
            \<lparr>outcome = Inr (Some (ErrorResult
                 (''Unsupported curve : '' @ curve addressKey
                  @ ''. Only Secp256K1 && Ed25519 are supported.''))),
             transactionAfter = Some tx, events = shown\<rparr>))))"

text \<open>The default \<^verbatim>\<open>addressIndex = 0\<close> of a missing argument.\<close>

definition defaultIndex :: "int option \<Rightarrow> int" where
  "defaultIndex addressIndexArg = (case addressIndexArg of None \<Rightarrow> 0 | Some i \<Rightarrow> i)"

text \<open>
  What \<^verbatim>\<open>sign\<close> returns once the \<^verbatim>\<open>try\<close> block is over: the \<^verbatim>\<open>catch\<close>
  clause turns a thrown value into an error result, a \<^verbatim>\<open>return\<close> inside the block
  stands, and the statement after the block reports the missing private key.
\<close>

definition afterTry :: "int \<Rightarrow> js_error + sign_result option \<Rightarrow> sign_result" where
  "afterTry addressIndex r =
     (case r of
        Inl error \<Rightarrow>
          ErrorResult (stringified error @ '' '' @ rendered error
                       @ '' Unable to convert json into deploy object.'')
      | Inr (Some result) \<Rightarrow> result
      | Inr None \<Rightarrow>
          ErrorResult (''No private key associated with the account ''
                       @ intToString addressIndex @ ''.''))"

text \<open>
  \<^verbatim>\<open>sign\<close>: the address is derived before the \<^verbatim>\<open>try\<close> block, so what the deriver
  throws there leaves the function. A missing or empty public key ends the run with an
  error result.
\<close>

definition sign :: "sdk \<Rightarrow> host \<Rightarrow> json \<Rightarrow> string \<Rightarrow> int option \<Rightarrow> sign_result run" where
  "sign k h deployJson origin addressIndexArg =
     (let addressIndex = defaultIndex addressIndexArg
      in case getCSPRAddress h addressIndex of
           Inl e \<Rightarrow> \<lparr>outcome = Inl e, transactionAfter = None, events = []\<rparr>
         | Inr address \<Rightarrow>
             (case publicKeyField address of
                None \<Rightarrow>
                  \<lparr>outcome = Inr (ErrorResult (''Unable to get public key at index ''
                                               @ intToString addressIndex @ ''.'')),
                   transactionAfter = None, events = []\<rparr>
              | Some publicKeyHex \<Rightarrow>
                  if publicKeyHex = []
                  then \<lparr>outcome = Inr (ErrorResult (''Unable to get public key at index ''
                                                    @ intToString addressIndex @ ''.'')),
                        transactionAfter = None, events = []\<rparr>
                  else
                    (let attempt = signTry k h deployJson origin addressIndex publicKeyHex
                     in \<lparr>outcome = Inr (afterTry addressIndex (outcome attempt)),
                         transactionAfter = transactionAfter attempt,
                         events = events attempt\<rparr>)))"

text \<open>
  The deriver of \<^verbatim>\<open>@metamask/key-tree\<close> refuses a negative index; the snap's test
  \<^verbatim>\<open>get cspr account derived -1\<close> expects its message
  \<^verbatim>\<open>Invalid BIP-32 index: Must be a non-negative integer.\<close>
\<close>

definition invalidIndexMessage :: string where
  "invalidIndexMessage = ''Invalid BIP-32 index: Must be a non-negative integer.''"

definition rejectsNegativeIndex :: "host \<Rightarrow> bool" where
  "rejectsNegativeIndex h =
     (\<forall>i<0. \<exists>e. deriveAddressKey h i = Inl e \<and> message e = invalidIndexMessage)"

subsection \<open>Sample objects\<close>

text \<open>
  A \<^verbatim>\<open>TypeError\<close> naming a member, an SDK with one rendering for every value, and
  one that prints the payload of a value.
\<close>

definition sampleTypeError :: "string \<Rightarrow> js_error" where
  "sampleTypeError member =
     \<lparr>message = ''no '' @ member, stringified = ''{}'',
      rendered = ''TypeError: no '' @ member\<rparr>"

definition plainSdk :: sdk where
  "plainSdk = \<lparr>toString = (\<lambda>_. ''value''), typeToString = (\<lambda>_. ''type''),
               vectorType = (\<lambda>_. ''undefined''), typeError = sampleTypeError\<rparr>"

fun payloadToString :: "clvalue \<Rightarrow> string" where
  "payloadToString (CLKey x) = x"
| "payloadToString (CLURef x) = x"
| "payloadToString (CLByteArray x) = x"
| "payloadToString (CLOption (Some v)) = payloadToString v"
| "payloadToString (CLPublicKey (Some hex)) = hex"
| "payloadToString (CLAccountHash prefixed) = prefixed"
| "payloadToString (CLOther x) = x"
| "payloadToString _ = []"

definition payloadSdk :: sdk where
  "payloadSdk = \<lparr>toString = payloadToString, typeToString = (\<lambda>_. ''type''),
                 vectorType = (\<lambda>_. ''undefined''), typeError = sampleTypeError\<rparr>"

text \<open>
  The transfer of the decoding scenario: recipient key, amount 10000000000000 motes,
  transfer id 35.
\<close>

definition sampleTransferArgs :: named_args where
  "sampleTransferArgs =
     [(''amount'', CLOther ''10000000000000''),
      (''target'', CLPublicKey
         (Some ''010068920746ecf5870e18911EE1fC5db975E0e97fFFcBBF52f5045Ad6C9838D2F'')),
      (''id'', CLOption (Some (CLOther ''35'')))]"

definition emptySession :: executable_deploy_item where
  "emptySession =
     \<lparr>transfer = None, moduleBytes = None, storedContractByHash = None,
      storedContractByName = None, storedVersionedContractByHash = None,
      storedVersionedContractByName = None, isModuleBytes = False,
      isStoredContractByHash = False, isStoredContractByName = False,
      bytes = Inr ''2,1,0''\<rparr>"

definition sampleDeployOf :: "bool \<Rightarrow> executable_deploy_item \<Rightarrow> deploy" where
  "sampleDeployOf isTransferAnswer s =
     \<lparr>isTransfer = isTransferAnswer, session = s,
      headerBodyHash = Some ''b0d1'', headerGasPrice = ''1''\<rparr>"

definition sampleTransaction :: "deploy \<Rightarrow> transaction" where
  "sampleTransaction d =
     \<lparr>initiatorPublicKey = Some ''02025e3c'', initiatorAccountHash = None,
      getDeploy = Some d, getTransactionV1 = False, hash = ''abcd'',
      txChainName = ''casper-test'', txTimestamp = ''1/1/2025, 12:00:00 AM'', txArgs = [],
      entryPointBytes = [], customEntryPoint = None, entryPointType = [], approvals = []\<rparr>"

definition sampleTransferDeploy :: deploy where
  "sampleTransferDeploy =
     sampleDeployOf True (emptySession\<lparr>transfer := Some sampleTransferArgs\<rparr>)"

text \<open>A transfer whose session also answers yes to \<^verbatim>\<open>isModuleBytes()\<close>.\<close>

definition sampleAmbiguousDeploy :: deploy where
  "sampleAmbiguousDeploy =
     sampleDeployOf True
       (emptySession\<lparr>transfer := Some sampleTransferArgs, isModuleBytes := True\<rparr>)"

text \<open>A contract call that declares an argument named \<^verbatim>\<open>Entry Point\<close>.\<close>

definition sampleContract :: stored_contract where
  "sampleContract =
     \<lparr>contractArgs = [(''Entry Point'', CLOther ''burn''), (''n'', CLOther ''7'')],
      entryPoint = ''mint''\<rparr>"

definition sampleContractCall :: deploy where
  "sampleContractCall =
     sampleDeployOf False
       (emptySession\<lparr>storedContractByHash := Some sampleContract,
                     isStoredContractByHash := True\<rparr>)"

text \<open>A contract call with a list of two numbers among its arguments.\<close>

definition sampleListCall :: deploy where
  "sampleListCall =
     sampleDeployOf False
       (emptySession\<lparr>storedContractByHash :=
                       Some \<lparr>contractArgs = [(''recipients'', CLList [CLOther ''1'', CLOther ''2''])],
                             entryPoint = ''mint''\<rparr>,
                     isStoredContractByHash := True\<rparr>)"

definition sampleModuleDeploy :: deploy where
  "sampleModuleDeploy =
     sampleDeployOf False (emptySession\<lparr>moduleBytes := Some [], isModuleBytes := True\<rparr>)"

text \<open>
  A host for runs of \<^verbatim>\<open>sign\<close>: the curve of the derived key, the user's answer and
  the verdict of the validation are parameters.
\<close>

definition sampleKey :: "string \<Rightarrow> address_key" where
  "sampleKey curveName =
     \<lparr>privateKeyBytes = Some [1, 2, 3], curve = curveName,
      compressedPublicKey = ''0x025e3c'', compressedPublicKeyBytes = [2, 94, 60],
      publicKey = ''0x045e3c''\<rparr>"

definition sampleHost :: "string \<Rightarrow> bool \<Rightarrow> bool \<Rightarrow> host" where
  "sampleHost curveName answer valid =
     \<lparr>deriveAddressKey =
        (\<lambda>i. if i < 0 then Inl (newError invalidIndexMessage) else Inr (sampleKey curveName)),
      bufferFromHex = (\<lambda>hex. if hex = ''abcd'' then [171, 205] else []),
      publicKeyFromBytes = (\<lambda>b. Inr ''02025e3c''),
      publicKeyFromHex = Inr,
      fromJson = (\<lambda>j. if j = ''deploy'' then Inr (sampleTransaction sampleModuleDeploy)
                       else Inl (newError ''bad json'')),
      snapDialog = (\<lambda>content. Inr answer),
      signDetached = (\<lambda>msg secret. Inr (msg @ secret)),
      sha256 = rev,
      ecdsaSign = (\<lambda>digest secret. Inr (secret @ digest)),
      validate = (\<lambda>tx. Inr valid),
      toJSON = (\<lambda>tx. ''signed'')\<rparr>"

definition sampleInfo :: deploy_info where
  "sampleInfo =
     \<lparr>deployHash = ''abcd'', signingKey = ''02025e3c'', account = Some ''02025e3c'',
      bodyHash = Some ''b0d1'', chainName = ''casper-test'',
      timestamp = ''1/1/2025, 12:00:00 AM'', gasPrice = Some ''1'',
      deployType = ''WASM-Based Deploy'', deployArgs = Map.empty\<rparr>"

definition sampleDialog :: dialog where
  "sampleDialog =
     \<lparr>dialogOrigin = ''https://example.org'', dialogInfo = sampleInfo,
      dialogTransaction = sampleTransaction sampleModuleDeploy\<rparr>"

section \<open>Properties\<close>

subsection \<open>Auxiliary facts\<close>

text \<open>Decimal texts: printing a number and reading it back.\<close>

lemma digitChar_isDigit: "0 \<le> d \<Longrightarrow> d < 10 \<Longrightarrow> isDigit (digitChar d)"
  by (simp add: isDigit_def digitChar_def)

lemma digitVal_digitChar: "0 \<le> d \<Longrightarrow> d < 10 \<Longrightarrow> digitVal (digitChar d) = d"
  by (simp add: digitVal_def digitChar_def)

lemma natToString_digits: "0 \<le> n \<Longrightarrow> list_all isDigit (natToString n)"
proof (induction n rule: natToString.induct)
  case (1 n)
  show ?case
  proof (cases "n < 10")
    case True
    with "1.prems" show ?thesis
      by (subst natToString.simps) (simp add: digitChar_isDigit)
  next
    case False
    with "1.prems" have "0 \<le> n div 10" by simp
    with False "1.IH" have "list_all isDigit (natToString (n div 10))" by simp
    moreover have "isDigit (digitChar (n mod 10))" by (simp add: digitChar_isDigit)
    ultimately show ?thesis using False
      by (subst natToString.simps) simp
  qed
qed

lemma natToString_nonempty: "natToString n \<noteq> []"
  by (subst natToString.simps) simp

lemma bigNumberFrom_snoc: "bigNumberFrom (xs @ [c]) = 10 * bigNumberFrom xs + digitVal c"
  by (simp add: bigNumberFrom_def)

lemma bigNumberFrom_natToString: "0 \<le> n \<Longrightarrow> bigNumberFrom (natToString n) = n"
proof (induction n rule: natToString.induct)
  case (1 n)
  show ?case
  proof (cases "n < 10")
    case True
    with "1.prems" show ?thesis
      by (subst natToString.simps) (simp add: bigNumberFrom_def digitVal_digitChar)
  next
    case False
    with "1.prems" have "0 \<le> n div 10" by simp
    with False "1.IH" have "bigNumberFrom (natToString (n div 10)) = n div 10" by simp
    then show ?thesis using False
      by (subst natToString.simps) (simp add: bigNumberFrom_snoc digitVal_digitChar)
  qed
qed

lemma length_natToString: "0 \<le> n \<Longrightarrow> n < 10 ^ k \<Longrightarrow> 0 < k \<Longrightarrow> length (natToString n) \<le> k"
proof (induction n arbitrary: k rule: natToString.induct)
  case (1 n)
  show ?case
  proof (cases "n < 10")
    case True
    with "1.prems" show ?thesis
      by (subst natToString.simps) simp
  next
    case False
    from "1.prems" obtain j where k: "k = Suc j" by (cases k) auto
    have "0 < j"
    proof (rule ccontr)
      assume "\<not> 0 < j"
      with k "1.prems" False show False by simp
    qed
    moreover from "1.prems" k have "n div 10 < 10 ^ j" by simp
    moreover from "1.prems" have "0 \<le> n div 10" by simp
    ultimately have "length (natToString (n div 10)) \<le> j"
      using "1.IH" False by simp
    with k False show ?thesis
      by (subst natToString.simps) simp
  qed
qed

lemma bigNumberFrom_zeros: "bigNumberFrom (replicate j CHR ''0'') = 0"
  by (induction j) (simp_all add: bigNumberFrom_def digitVal_def)

lemma bigNumberFrom_leading_zeros: "bigNumberFrom (replicate j CHR ''0'' @ s) = bigNumberFrom s"
  using bigNumberFrom_zeros [of j] by (simp add: bigNumberFrom_def)

lemma takeWhile_replicate: "takeWhile (\<lambda>c. c = a) xs = replicate (length (takeWhile (\<lambda>c. c = a) xs)) a"
  by (induction xs) simp_all

lemma trim_decompose:
  "s = trimTrailingZeros s @ replicate (length s - length (trimTrailingZeros s)) CHR ''0''"
proof -
  let ?P = "\<lambda>c. c = CHR ''0''"
  have "rev s = takeWhile ?P (rev s) @ dropWhile ?P (rev s)" by simp
  then have "s = rev (dropWhile ?P (rev s)) @ rev (takeWhile ?P (rev s))"
    by (metis rev_append rev_rev_ident)
  moreover have "length (takeWhile ?P (rev s)) = length s - length (trimTrailingZeros s)"
  proof -
    have "length (takeWhile ?P (rev s)) + length (dropWhile ?P (rev s)) = length s"
      by (metis length_append length_rev takeWhile_dropWhile_id)
    then show ?thesis by (simp add: trimTrailingZeros_def)
  qed
  moreover have "rev (takeWhile ?P (rev s)) = replicate (length (takeWhile ?P (rev s))) CHR ''0''"
    using takeWhile_replicate [of "CHR ''0''" "rev s"] by (metis rev_replicate)
  ultimately show ?thesis by (simp add: trimTrailingZeros_def)
qed

lemma padEnd_trim: "length s = k \<Longrightarrow> padEnd k (trimTrailingZeros s) = s"
  using trim_decompose [of s] by (simp add: padEnd_def)

lemma trim_idem: "trimTrailingZeros (trimTrailingZeros s) = trimTrailingZeros s"
  by (simp add: trimTrailingZeros_def)

lemma trim_zero: "trimTrailingZeros ''0'' = []"
  by (simp add: trimTrailingZeros_def)

lemma length_trim: "length (trimTrailingZeros s) \<le> length s"
  using length_dropWhile_le [of "\<lambda>c. c = CHR ''0''" "rev s"] by (simp add: trimTrailingZeros_def)

lemma set_trim: "set (trimTrailingZeros s) \<subseteq> set s"
  by (auto simp: trimTrailingZeros_def dest: set_dropWhileD)

lemma split_no_sep: "sep \<notin> set s \<Longrightarrow> split sep s = [s]"
  by (induction s) auto

lemma split_one_sep: "sep \<notin> set w \<Longrightarrow> sep \<notin> set f \<Longrightarrow> split sep (w @ sep # f) = [w, f]"
  by (induction w) (auto simp: split_no_sep)

lemma isDigit_not_point: "isDigit c \<Longrightarrow> c \<noteq> CHR ''.''"
  by (auto simp: isDigit_def)

lemma isDigit_not_minus: "isDigit c \<Longrightarrow> c \<noteq> CHR ''-''"
  by (auto simp: isDigit_def)

lemma isDigit_zero: "isDigit CHR ''0''"
  by (simp add: isDigit_def)


lemma formatFixed_parts:
  assumes "0 < d"
  shows "formatFixed x d =
     (if x < 0 then ''-'' else []) @ natToString (\<bar>x\<bar> div 10 ^ d) @ ''.''
       @ (let stripped = trimTrailingZeros (padStart d (natToString (\<bar>x\<bar> mod 10 ^ d)))
          in if stripped = [] then ''0'' else stripped)"
  using assms by (simp add: formatFixed_def Let_def)

lemma padded_fraction:
  assumes "0 < d"
  shows "length (padStart d (natToString (\<bar>x\<bar> mod 10 ^ d))) = d"
    and "list_all isDigit (padStart d (natToString (\<bar>x\<bar> mod 10 ^ d)))"
    and "bigNumberFrom (padStart d (natToString (\<bar>x\<bar> mod 10 ^ d))) = \<bar>x\<bar> mod 10 ^ d"
proof -
  let ?r = "\<bar>x\<bar> mod (10 ^ d :: int)"
  have r: "0 \<le> ?r" "?r < 10 ^ d" by simp_all
  from length_natToString [OF r assms] show "length (padStart d (natToString ?r)) = d"
    by (simp add: padStart_def)
  from natToString_digits [OF r(1)] show "list_all isDigit (padStart d (natToString ?r))"
    by (auto simp: padStart_def list_all_iff isDigit_zero)
  from bigNumberFrom_natToString [OF r(1)] show "bigNumberFrom (padStart d (natToString ?r)) = ?r"
    by (simp add: padStart_def bigNumberFrom_leading_zeros)
qed


lemma fraction_roundtrip:
  assumes "length p = d" and "0 < d"
    and "f = (if trimTrailingZeros p = [] then ''0'' else trimTrailingZeros p)"
  shows "padEnd d (if trimTrailingZeros f = [] then ''0'' else trimTrailingZeros f) = p"
    and "length (trimTrailingZeros f) \<le> d"
proof -
  show "length (trimTrailingZeros f) \<le> d"
    using length_trim [of p] assms(1,3) by (simp add: trim_zero trim_idem)
  show "padEnd d (if trimTrailingZeros f = [] then ''0'' else trimTrailingZeros f) = p"
  proof (cases "trimTrailingZeros p = []")
    case True
    with trim_decompose [of p] assms(1) have p: "p = replicate d CHR ''0''" by simp
    from assms(2) obtain j where "d = Suc j" by (cases d) auto
    then have "padEnd d ''0'' = replicate d CHR ''0''" by (simp add: padEnd_def)
    with True p assms(3) show ?thesis by (simp add: trim_zero)
  next
    case False
    with padEnd_trim [OF assms(1)] assms(3) show ?thesis by (simp add: trim_idem)
  qed
qed

lemma parseFixed_body:
  assumes w: "w \<noteq> []" "list_all isDigit w"
    and f: "f \<noteq> []" "list_all isDigit f"
    and small: "length (trimTrailingZeros f) \<le> d"
  shows "parseFixed (w @ ''.'' @ f) d =
           Inr (bigNumberFrom w * 10 ^ d
                + bigNumberFrom (padEnd d (if trimTrailingZeros f = [] then ''0''
                                           else trimTrailingZeros f)))"
    and "parseFixed (''-'' @ w @ ''.'' @ f) d =
           Inr (- (bigNumberFrom w * 10 ^ d
                   + bigNumberFrom (padEnd d (if trimTrailingZeros f = [] then ''0''
                                              else trimTrailingZeros f))))"
proof -
  from w(2) have wp: "CHR ''.'' \<notin> set w" and wm: "CHR ''-'' \<notin> set w"
    by (auto simp: list_all_iff dest: isDigit_not_point isDigit_not_minus)
  from f(2) have fp: "CHR ''.'' \<notin> set f"
    by (auto simp: list_all_iff dest: isDigit_not_point)
  from w(1) wm have first: "take 1 (w @ ''.'' @ f) \<noteq> ''-''"
    by (cases w) auto
  have chars: "list_all (\<lambda>c. isDigit c \<or> c = CHR ''.'') (w @ ''.'' @ f)"
    using w(2) f(2) by (auto simp: list_all_iff)
  from w(1) have notpoint: "w @ ''.'' @ f \<noteq> ''.''"
    by (cases w) auto
  have comps: "split CHR ''.'' (w @ ''.'' @ f) = [w, f]"
    using split_one_sep [OF wp fp] by simp
  have body: "parseFixed (w @ ''.'' @ f) d =
           Inr (bigNumberFrom w * 10 ^ d
                + bigNumberFrom (padEnd d (if trimTrailingZeros f = [] then ''0''
                                           else trimTrailingZeros f)))"
    unfolding parseFixed_def using first chars notpoint w(1) f(1) small
    by (simp add: comps Let_def del: append.simps)
  then show "parseFixed (w @ ''.'' @ f) d =
           Inr (bigNumberFrom w * 10 ^ d
                + bigNumberFrom (padEnd d (if trimTrailingZeros f = [] then ''0''
                                           else trimTrailingZeros f)))" .
  have neg: "take 1 (''-'' @ w @ ''.'' @ f) = ''-''" "drop 1 (''-'' @ w @ ''.'' @ f) = w @ ''.'' @ f"
    by simp_all
  show "parseFixed (''-'' @ w @ ''.'' @ f) d =
           Inr (- (bigNumberFrom w * 10 ^ d
                   + bigNumberFrom (padEnd d (if trimTrailingZeros f = [] then ''0''
                                              else trimTrailingZeros f))))"
    unfolding parseFixed_def neg using chars notpoint w(1) f(1) small
    by (simp add: comps Let_def del: append.simps)
qed

lemma parseFixed_formatFixed:
  assumes "0 < d"
  shows "parseFixed (formatFixed x d) d = Inr x"
proof -
  define w where "w = natToString (\<bar>x\<bar> div 10 ^ d)"
  define p where "p = padStart d (natToString (\<bar>x\<bar> mod 10 ^ d))"
  define f where "f = (if trimTrailingZeros p = [] then ''0'' else trimTrailingZeros p)"
  have w: "w \<noteq> []" "list_all isDigit w" "bigNumberFrom w = \<bar>x\<bar> div 10 ^ d"
    by (simp_all add: w_def natToString_nonempty natToString_digits bigNumberFrom_natToString
          pos_imp_zdiv_nonneg_iff)
  from padded_fraction [OF assms, of x]
  have p: "length p = d" "list_all isDigit p" "bigNumberFrom p = \<bar>x\<bar> mod 10 ^ d"
    by (simp_all add: p_def)
  have f: "f \<noteq> []" "list_all isDigit f"
    using p(2) set_trim [of p] by (auto simp: f_def list_all_iff isDigit_zero)
  from fraction_roundtrip [OF p(1) assms f_def]
  have restored: "padEnd d (if trimTrailingZeros f = [] then ''0'' else trimTrailingZeros f) = p"
    and small: "length (trimTrailingZeros f) \<le> d"
    by simp_all
  have shape: "formatFixed x d = (if x < 0 then ''-'' else []) @ w @ ''.'' @ f"
    using formatFixed_parts [OF assms, of x] by (simp add: w_def p_def f_def Let_def)
  have total: "bigNumberFrom w * 10 ^ d + bigNumberFrom p = \<bar>x\<bar>"
    unfolding w(3) p(3) by (rule div_mult_mod_eq)
  show ?thesis
  proof (cases "x < 0")
    case True
    with parseFixed_body(2) [OF w(1,2) f small] show ?thesis
      by (simp add: shape restored total)
  next
    case False
    with parseFixed_body(1) [OF w(1,2) f small] show ?thesis
      by (simp add: shape restored total)
  qed
qed


lemma parseFixed_whole:
  assumes w: "w \<noteq> []" "list_all isDigit w"
  shows "parseFixed w d = Inr (bigNumberFrom w * 10 ^ d)"
proof -
  from w(2) have wp: "CHR ''.'' \<notin> set w" and wm: "CHR ''-'' \<notin> set w"
    by (auto simp: list_all_iff dest: isDigit_not_point isDigit_not_minus)
  from w(1) wm have first: "take 1 w \<noteq> ''-''"
    by (cases w) auto
  have chars: "list_all (\<lambda>c. isDigit c \<or> c = CHR ''.'') w"
    using w(2) by (auto simp: list_all_iff)
  from wp have notpoint: "w \<noteq> ''.''" by auto
  have zeros: "bigNumberFrom (padEnd d ''0'') = 0"
    using bigNumberFrom_zeros [of "Suc (d - 1)"] by (simp add: padEnd_def)
  show ?thesis
    unfolding parseFixed_def using first chars notpoint w(1)
    by (simp add: split_no_sep [OF wp] trim_zero zeros Let_def)
qed

lemma parseFixed_natToString:
  "0 \<le> n \<Longrightarrow> parseFixed (natToString n) d = Inr (n * 10 ^ d)"
  using parseFixed_whole [OF natToString_nonempty natToString_digits, of n d]
  by (simp add: bigNumberFrom_natToString)

lemma fixedDecimals_pos: "0 < fixedDecimals"
  by (simp add: fixedDecimals_def)

lemma fromString_formatFixed:
  "FixedNumber_fromString (formatFixed x fixedDecimals) = Inr (formatFixed x fixedDecimals)"
  by (simp add: FixedNumber_fromString_def parseFixed_formatFixed [OF fixedDecimals_pos])

lemma divisor_fixed:
  "FixedNumber_fromValue 1000000000 0
     = Inr (formatFixed (1000000000 * 10 ^ fixedDecimals) fixedDecimals)"
proof -
  have "formatFixed 1000000000 0 = natToString 1000000000"
    by (simp add: formatFixed_def Let_def)
  moreover have "parseFixed (natToString 1000000000) fixedDecimals
                   = Inr (1000000000 * 10 ^ fixedDecimals)"
    by (rule parseFixed_natToString) simp
  ultimately show ?thesis
    by (simp add: FixedNumber_fromValue_def FixedNumber_fromString_def
          parseFixed_formatFixed [OF fixedDecimals_pos])
qed

lemma quotient_by_divisor:
  "bigNumberDiv (x * 10 ^ fixedDecimals) (1000000000 * 10 ^ fixedDecimals)
     = Inr (sgn x * (\<bar>x\<bar> div 1000000000))"
proof -
  have "\<bar>x * 10 ^ fixedDecimals\<bar> div \<bar>1000000000 * 10 ^ fixedDecimals :: int\<bar>
          = \<bar>x\<bar> * 10 ^ fixedDecimals div (1000000000 * 10 ^ fixedDecimals)"
    by (simp add: abs_mult)
  also have "\<dots> = \<bar>x\<bar> div 1000000000"
    by (rule div_mult_mult2) simp
  finally have "\<bar>x * 10 ^ fixedDecimals\<bar> div \<bar>1000000000 * 10 ^ fixedDecimals :: int\<bar>
                  = \<bar>x\<bar> div 1000000000" .
  moreover have "sgn (x * 10 ^ fixedDecimals) * sgn (1000000000 * 10 ^ fixedDecimals :: int) = sgn x"
    by (simp add: sgn_mult)
  moreover have "(1000000000 * 10 ^ fixedDecimals :: int) \<noteq> 0" by simp
  ultimately show ?thesis
    unfolding bigNumberDiv_def by (simp only: if_False)
qed

lemma divUnsafe_by_divisor:
  "divUnsafe (formatFixed x fixedDecimals)
     (formatFixed (1000000000 * 10 ^ fixedDecimals) fixedDecimals)
   = Inr (formatFixed (sgn x * (\<bar>x\<bar> div 1000000000)) fixedDecimals)"
  unfolding divUnsafe_def parseFixed_formatFixed [OF fixedDecimals_pos]
  by (simp only: sum.case quotient_by_divisor FixedNumber_fromValue_def fromString_formatFixed)

lemma convert_accepted:
  assumes "parseFixed motesAmount fixedDecimals = Inr x"
  shows "convertMotesToCasper motesAmount
           = formatFixed (sgn x * (\<bar>x\<bar> div 1000000000)) fixedDecimals"
  unfolding convertMotesToCasper_def FixedNumber_fromString_def assms divisor_fixed
  by (simp only: sum.case divUnsafe_by_divisor)

lemma whole_motes_quotient:
  assumes "0 \<le> (n::int)"
  shows "sgn (n * 10 ^ fixedDecimals) * (\<bar>n * 10 ^ fixedDecimals\<bar> div 1000000000)
           = n * 1000000000"
proof (cases "n = 0")
  case True
  then show ?thesis by simp
next
  case False
  with assms have pos: "0 < n" by simp
  have e: "(10::int) ^ fixedDecimals = 1000000000 * 1000000000"
    by (simp add: fixedDecimals_def)
  from pos have "0 < n * 10 ^ fixedDecimals" by simp
  then have "sgn (n * 10 ^ fixedDecimals) = 1" "\<bar>n * 10 ^ fixedDecimals\<bar> = n * 10 ^ fixedDecimals"
    by simp_all
  moreover have "n * 10 ^ fixedDecimals div 1000000000 = n * 1000000000"
    unfolding e by simp
  ultimately show ?thesis by simp
qed

lemma convert_whole_motes:
  assumes "0 \<le> n"
  shows "convertMotesToCasper (natToString n) = formatFixed (n * 1000000000) fixedDecimals"
  using convert_accepted [OF parseFixed_natToString [OF assms]]
  by (simp only: whole_motes_quotient [OF assms])

text \<open>Sample conversions.\<close>

lemma convert_sample_whole: "convertMotesToCasper ''10000000000'' = ''10.0''"
  by code_simp

lemma convert_sample_one: "convertMotesToCasper ''1'' = ''0.000000001''"
  by code_simp

lemma convert_sample_transfer: "convertMotesToCasper ''10000000000000'' = ''10000.0''"
  by code_simp

lemma convert_rejected:
  "parseFixed motesAmount fixedDecimals = Inl fault \<Longrightarrow> convertMotesToCasper motesAmount = ''0''"
  by (simp add: convertMotesToCasper_def FixedNumber_fromString_def)

lemma deployType_of_deploy:
  "getDeploy tx = Some d \<Longrightarrow> transactionToObject k tx key = Inr info
     \<Longrightarrow> deployType info = deployTypeOf d"
  by (auto simp: transactionToObject_def Let_def split: sum.splits)

lemma sign_enters_try:
  assumes "getCSPRAddress h (defaultIndex addressIndexArg) = Inr (PublicKeyResult publicKeyHex)"
    and "publicKeyHex \<noteq> []"
  shows "sign k h deployJson origin addressIndexArg =
           \<lparr>outcome = Inr (afterTry (defaultIndex addressIndexArg)
                        (outcome (signTry k h deployJson origin (defaultIndex addressIndexArg) publicKeyHex))),
            transactionAfter =
              transactionAfter (signTry k h deployJson origin (defaultIndex addressIndexArg) publicKeyHex),
            events = events (signTry k h deployJson origin (defaultIndex addressIndexArg) publicKeyHex)\<rparr>"
  using assms by (simp add: sign_def Let_def)

lemma sign_outside_try:
  assumes "\<not> (\<exists>publicKeyHex.
               getCSPRAddress h (defaultIndex addressIndexArg) = Inr (PublicKeyResult publicKeyHex)
               \<and> publicKeyHex \<noteq> [])"
  shows "events (sign k h deployJson origin addressIndexArg) = []
       \<and> transactionAfter (sign k h deployJson origin addressIndexArg) = None"
proof (cases "getCSPRAddress h (defaultIndex addressIndexArg)")
  case (Inl e)
  then show ?thesis by (simp add: sign_def)
next
  case (Inr address)
  with assms show ?thesis
    by (cases address) (auto simp: sign_def Let_def)
qed

lemma signTry_dialog:
  assumes "DialogShown content \<in> set (events (signTry k h deployJson origin i publicKeyHex))"
  shows "\<exists>tx addressKey info.
           fromJson h deployJson = Inr tx \<and> deriveAddressKey h i = Inr addressKey
           \<and> transactionToObject k tx publicKeyHex = Inr info
           \<and> content = \<lparr>dialogOrigin = origin, dialogInfo = info, dialogTransaction = tx\<rparr>"
proof (cases "fromJson h deployJson")
  case (Inl e)
  with assms show ?thesis by (simp add: signTry_def)
next
  case tx: (Inr tx)
  show ?thesis
  proof (cases "deriveAddressKey h i")
    case (Inl e)
    with assms tx show ?thesis by (simp add: signTry_def)
  next
    case key: (Inr addressKey)
    show ?thesis
    proof (cases "transactionToObject k tx publicKeyHex")
      case (Inl e)
      with assms tx key show ?thesis by (simp add: signTry_def promptUserDeployInfo_def)
    next
      case (Inr info)
      with assms tx key show ?thesis
        by (auto simp: signTry_def promptUserDeployInfo_def Let_def
              split: sum.splits option.splits if_splits prod.splits)
    qed
  qed
qed

lemma signTry_declined:
  assumes "fromJson h deployJson = Inr tx" "deriveAddressKey h i = Inr addressKey"
    "transactionToObject k tx publicKeyHex = Inr info"
    "snapDialog h \<lparr>dialogOrigin = origin, dialogInfo = info, dialogTransaction = tx\<rparr> = Inr False"
  shows "signTry k h deployJson origin i publicKeyHex =
           \<lparr>outcome = Inr (Some Declined), transactionAfter = Some tx,
            events = [DialogShown \<lparr>dialogOrigin = origin, dialogInfo = info, dialogTransaction = tx\<rparr>]\<rparr>"
  using assms by (simp add: signTry_def promptUserDeployInfo_def Let_def)

text \<open>The sample host at work.\<close>

lemma sample_address:
  "getCSPRAddress (sampleHost c a v) (defaultIndex None) = Inr (PublicKeyResult ''02025e3c'')"
  by (simp add: getCSPRAddress_def sampleHost_def defaultIndex_def)

lemma sample_fromJson:
  "fromJson (sampleHost c a v) ''deploy'' = Inr (sampleTransaction sampleModuleDeploy)"
  by (simp add: sampleHost_def)

lemma sample_key:
  "deriveAddressKey (sampleHost c a v) (defaultIndex None) = Inr (sampleKey c)"
  by (simp add: sampleHost_def defaultIndex_def)

lemma sample_info:
  "transactionToObject plainSdk (sampleTransaction sampleModuleDeploy) ''02025e3c'' = Inr sampleInfo"
  by (simp add: transactionToObject_def sampleTransaction_def sampleModuleDeploy_def
        sampleDeployOf_def emptySession_def sessionArgs_def deployTypeOf_def
        sampleInfo_def Let_def)

lemma sample_answer: "snapDialog (sampleHost c a v) sampleDialog = Inr a"
  by (simp add: sampleHost_def)

lemma sample_secret: "privateKeyBytes (sampleKey c) = Some [1, 2, 3]"
  by (simp add: sampleKey_def)

subsection \<open>Curve dispatch\<close>

text \<open>
  C1. Once the run of \<^verbatim>\<open>sign\<close> has its public key, its transaction, its derived key
  with private key bytes and the user's consent: with curve \<^verbatim>\<open>ed25519\<close> the
  signature attached is the detached signature of the raw bytes of the transaction hash;
  with curve \<^verbatim>\<open>secp256k1\<close> it is the ECDSA signature of the SHA-256 digest of those
  bytes; with any other curve the result is the error naming the curve, nothing is
  signed and the transaction stays as it was.
\<close>

theorem sign_curve_dispatch:
  assumes "getCSPRAddress h (defaultIndex addressIndexArg) = Inr (PublicKeyResult publicKeyHex)"
    and "publicKeyHex \<noteq> []"
    and "fromJson h deployJson = Inr tx"
    and "deriveAddressKey h (defaultIndex addressIndexArg) = Inr addressKey"
    and "transactionToObject k tx publicKeyHex = Inr info"
    and "snapDialog h \<lparr>dialogOrigin = origin, dialogInfo = info, dialogTransaction = tx\<rparr> = Inr True"
    and "privateKeyBytes addressKey = Some secret"
  shows "(curve addressKey = ''ed25519'' \<longrightarrow>
            (\<forall>signature. signDetached h (bufferFromHex h (hash tx)) secret = Inr signature \<longrightarrow>
               sign k h deployJson origin addressIndexArg =
                 \<lparr>outcome = Inr (afterTry (defaultIndex addressIndexArg)
                     (map_sum id Some
                        (fst (addSignatureAndValidateTransaction h tx signature publicKeyHex)))),
                  transactionAfter =
                    Some (snd (addSignatureAndValidateTransaction h tx signature publicKeyHex)),
                  events =
                    [DialogShown \<lparr>dialogOrigin = origin, dialogInfo = info, dialogTransaction = tx\<rparr>,
                     SignatureComputed ''ed25519'' (bufferFromHex h (hash tx))]\<rparr>))
       \<and> (curve addressKey = ''secp256k1'' \<longrightarrow>
            (\<forall>signature.
               ecdsaSign h (sha256 h (bufferFromHex h (hash tx))) secret = Inr signature \<longrightarrow>
               sign k h deployJson origin addressIndexArg =
                 \<lparr>outcome = Inr (afterTry (defaultIndex addressIndexArg)
                     (map_sum id Some
                        (fst (addSignatureAndValidateTransaction h tx signature publicKeyHex)))),
                  transactionAfter =
                    Some (snd (addSignatureAndValidateTransaction h tx signature publicKeyHex)),
                  events =
                    [DialogShown \<lparr>dialogOrigin = origin, dialogInfo = info, dialogTransaction = tx\<rparr>,
                     SignatureComputed ''secp256k1'' (sha256 h (bufferFromHex h (hash tx)))]\<rparr>))
       \<and> (curve addressKey \<noteq> ''ed25519'' \<and> curve addressKey \<noteq> ''secp256k1'' \<longrightarrow>
            sign k h deployJson origin addressIndexArg =
              \<lparr>outcome = Inr (ErrorResult (''Unsupported curve : '' @ curve addressKey
                                           @ ''. Only Secp256K1 && Ed25519 are supported.'')),
               transactionAfter = Some tx,
               events =
                 [DialogShown \<lparr>dialogOrigin = origin, dialogInfo = info, dialogTransaction = tx\<rparr>]\<rparr>)"
  using assms(3-7)
  by (simp add: sign_enters_try [OF assms(1,2)] signTry_def promptUserDeployInfo_def Let_def
        afterTry_def split: prod.splits)

theorem sign_curve_dispatch_witness:
  "sign plainSdk (sampleHost ''ed25519'' True True) ''deploy'' ''https://example.org'' None =
     \<lparr>outcome = Inr (DeployResult ''signed''),
      transactionAfter =
        Some (setSignature (sampleTransaction sampleModuleDeploy) [171, 205, 1, 2, 3] ''02025e3c''),
      events = [DialogShown sampleDialog, SignatureComputed ''ed25519'' [171, 205]]\<rparr>
   \<and> sign plainSdk (sampleHost ''secp256k1'' True True) ''deploy'' ''https://example.org'' None =
     \<lparr>outcome = Inr (DeployResult ''signed''),
      transactionAfter =
        Some (setSignature (sampleTransaction sampleModuleDeploy) [1, 2, 3, 205, 171] ''02025e3c''),
      events = [DialogShown sampleDialog, SignatureComputed ''secp256k1'' [205, 171]]\<rparr>
   \<and> sign plainSdk (sampleHost ''p256'' True True) ''deploy'' ''https://example.org'' None =
     \<lparr>outcome = Inr (ErrorResult ''Unsupported curve : p256. Only Secp256K1 && Ed25519 are supported.''),
      transactionAfter = Some (sampleTransaction sampleModuleDeploy),
      events = [DialogShown sampleDialog]\<rparr>"
proof -
  have pk: "''02025e3c'' \<noteq> []" by simp
  have yes: "snapDialog (sampleHost c True True)
               \<lparr>dialogOrigin = ''https://example.org'', dialogInfo = sampleInfo,
                dialogTransaction = sampleTransaction sampleModuleDeploy\<rparr> = Inr True" for c
    by (simp add: sampleHost_def)
  note run = sign_curve_dispatch [OF sample_address pk sample_fromJson sample_key sample_info yes
      sample_secret]
  have ed: "signDetached (sampleHost ''ed25519'' True True)
              (bufferFromHex (sampleHost ''ed25519'' True True)
                 (hash (sampleTransaction sampleModuleDeploy))) [1, 2, 3]
            = Inr [171, 205, 1, 2, 3]"
    by (simp add: sampleHost_def sampleTransaction_def)
  have ec: "ecdsaSign (sampleHost ''secp256k1'' True True)
              (sha256 (sampleHost ''secp256k1'' True True)
                 (bufferFromHex (sampleHost ''secp256k1'' True True)
                    (hash (sampleTransaction sampleModuleDeploy)))) [1, 2, 3]
            = Inr [1, 2, 3, 205, 171]"
    by (simp add: sampleHost_def sampleTransaction_def)
  have attach: "addSignatureAndValidateTransaction (sampleHost c True True) tx signature ''02025e3c''
                = (Inr (DeployResult ''signed''), setSignature tx signature ''02025e3c'')"
    for c tx signature
    by (simp add: addSignatureAndValidateTransaction_def sampleHost_def Let_def)
  have bytes: "bufferFromHex (sampleHost c True True) (hash (sampleTransaction sampleModuleDeploy))
               = [171, 205]" for c
    by (simp add: sampleHost_def sampleTransaction_def)
  have digest: "sha256 (sampleHost c True True) [171, 205] = [205, 171]" for c
    by (simp add: sampleHost_def)
  have c1: "curve (sampleKey c) = c" for c by (simp add: sampleKey_def)
  from run [of "''ed25519''"] ed have first: "sign plainSdk (sampleHost ''ed25519'' True True) ''deploy'' ''https://example.org'' None =
     \<lparr>outcome = Inr (DeployResult ''signed''),
      transactionAfter =
        Some (setSignature (sampleTransaction sampleModuleDeploy) [171, 205, 1, 2, 3] ''02025e3c''),
      events = [DialogShown sampleDialog, SignatureComputed ''ed25519'' [171, 205]]\<rparr>"
    by (simp add: c1 attach bytes afterTry_def sampleDialog_def)
  from run [of "''secp256k1''"] ec have second: "sign plainSdk (sampleHost ''secp256k1'' True True) ''deploy'' ''https://example.org'' None =
     \<lparr>outcome = Inr (DeployResult ''signed''),
      transactionAfter =
        Some (setSignature (sampleTransaction sampleModuleDeploy) [1, 2, 3, 205, 171] ''02025e3c''),
      events = [DialogShown sampleDialog, SignatureComputed ''secp256k1'' [205, 171]]\<rparr>"
    by (simp add: c1 attach bytes digest afterTry_def sampleDialog_def)
  from run [of "''p256''"] have third: "sign plainSdk (sampleHost ''p256'' True True) ''deploy'' ''https://example.org'' None =
     \<lparr>outcome = Inr (ErrorResult ''Unsupported curve : p256. Only Secp256K1 && Ed25519 are supported.''),
      transactionAfter = Some (sampleTransaction sampleModuleDeploy),
      events = [DialogShown sampleDialog]\<rparr>"
    by (simp add: c1 sampleDialog_def)
  from first second third show ?thesis by blast
qed

subsection \<open>Motes and the transfer display\<close>

text \<open>
  C2, as the claim has it, fails: the quotient of 10000000000 motes is rendered with a
  fractional digit, so the display is \<^verbatim>\<open>10.0 CSPR\<close> and not \<^verbatim>\<open>10 CSPR\<close>.
\<close>

theorem convertMotesToCasper_whole_counterexample:
  "convertMotesToCasper ''10000000000'' @ '' CSPR'' = ''10.0 CSPR''
   \<and> convertMotesToCasper ''10000000000'' @ '' CSPR'' \<noteq> ''10 CSPR''"
  by (simp add: convert_sample_whole)

text \<open>
  C2, amended. The conversion divides by \<open>10\<^sup>9\<close> in decimal fixed-point arithmetic of 18
  places: 10000000000 motes give \<^verbatim>\<open>10.0\<close> (a whole quotient keeps one fractional
  zero) and 1 mote gives \<^verbatim>\<open>0.000000001\<close>. The division is exact for every amount
  of motes written as a whole number \<open>n\<close>: the result is the text of \<open>n \<times> 10\<^sup>9\<close> units
  of \<open>10\<^sup>-\<^sup>1\<^sup>8\<close>, and reading that text gives the same number back. A string the
  fixed-point parser rejects gives \<^verbatim>\<open>0\<close>, so that the transfer display, which
  cannot fail, shows \<^verbatim>\<open>0 CSPR\<close>.
\<close>

theorem convertMotesToCasper_fixed:
  "convertMotesToCasper ''10000000000'' = ''10.0''
   \<and> convertMotesToCasper ''1'' = ''0.000000001''
   \<and> (\<forall>n\<ge>0. convertMotesToCasper (natToString n)
                   = formatFixed (n * 1000000000) fixedDecimals
              \<and> parseFixed (formatFixed (n * 1000000000) fixedDecimals) fixedDecimals
                   = Inr (n * 1000000000))
   \<and> (\<forall>motesAmount fault.
         parseFixed motesAmount fixedDecimals = Inl fault \<longrightarrow>
           convertMotesToCasper motesAmount = ''0''
           \<and> (\<forall>k t v. map_of t ''amount'' = Some v \<and> toString k v = motesAmount \<longrightarrow>
                 parseTransferData k t ''Amount'' = Some (Defined (Str ''0 CSPR''))))"
  by (simp add: convert_sample_whole convert_sample_one convert_rejected convert_whole_motes
        parseFixed_formatFixed [OF fixedDecimals_pos] parseTransferData_def Let_def)

theorem convertMotesToCasper_fixed_witness:
  "(0::int) \<le> 2500000000
   \<and> natToString 2500000000 = ''2500000000''
   \<and> convertMotesToCasper ''2500000000'' = ''2.5''
   \<and> parseFixed ''2.5'' fixedDecimals = Inr (2500000000 * 1000000000)
   \<and> parseFixed ''12 motes'' fixedDecimals = Inl InvalidDecimalValue
   \<and> map_of [(''amount'', CLOther ''12 motes'')] ''amount'' = Some (CLOther ''12 motes'')
   \<and> toString payloadSdk (CLOther ''12 motes'') = ''12 motes''
   \<and> convertMotesToCasper ''12 motes'' = ''0''
   \<and> parseTransferData payloadSdk [(''amount'', CLOther ''12 motes'')] ''Amount''
       = Some (Defined (Str ''0 CSPR''))"
proof -
  have whole: "(0::int) \<le> 2500000000" by simp
  have digits: "natToString 2500000000 = ''2500000000''" by code_simp
  have shown: "formatFixed (2500000000 * 1000000000) fixedDecimals = ''2.5''" by code_simp
  have rejected: "parseFixed ''12 motes'' fixedDecimals = Inl InvalidDecimalValue"
    by code_simp
  have amount: "map_of [(''amount'', CLOther ''12 motes'')] ''amount'' = Some (CLOther ''12 motes'')"
    by simp
  have own: "toString payloadSdk (CLOther ''12 motes'') = ''12 motes''"
    by (simp add: payloadSdk_def)
  from convertMotesToCasper_fixed whole
  have "convertMotesToCasper (natToString 2500000000)
          = formatFixed (2500000000 * 1000000000) fixedDecimals"
    and "parseFixed (formatFixed (2500000000 * 1000000000) fixedDecimals) fixedDecimals
          = Inr (2500000000 * 1000000000)"
    by blast+
  then have exact: "convertMotesToCasper ''2500000000'' = ''2.5''"
    "parseFixed ''2.5'' fixedDecimals = Inr (2500000000 * 1000000000)"
    by (simp_all only: digits shown)
  from convertMotesToCasper_fixed rejected amount own
  have "convertMotesToCasper ''12 motes'' = ''0''"
    and "parseTransferData payloadSdk [(''amount'', CLOther ''12 motes'')] ''Amount''
           = Some (Defined (Str ''0 CSPR''))"
    by blast+
  with whole digits exact rejected amount own show ?thesis by blast
qed

text \<open>
  C3, as the claim has it, fails on its own example: the transfer of 10000000000000 motes
  with id 35 is displayed with the amount \<^verbatim>\<open>10000.0 CSPR\<close>.
\<close>

theorem transfer_display_counterexample:
  "\<not> isl (transactionToObject payloadSdk (sampleTransaction sampleTransferDeploy) ''02025e3c'')
   \<and> deployArgs (projr (transactionToObject payloadSdk (sampleTransaction sampleTransferDeploy)
                          ''02025e3c'')) ''Amount''
       = Some (Defined (Str ''10000.0 CSPR''))
   \<and> deployArgs (projr (transactionToObject payloadSdk (sampleTransaction sampleTransferDeploy)
                          ''02025e3c'')) ''Amount''
       \<noteq> Some (Defined (Str ''10000 CSPR''))"
  by (simp add: transactionToObject_def sampleTransaction_def sampleTransferDeploy_def
        sampleDeployOf_def emptySession_def sessionArgs_def parseTransferData_def
        sampleTransferArgs_def payloadSdk_def convert_sample_transfer Let_def)

text \<open>
  C3, amended. A legacy deploy whose session is a transfer decodes to the kind
  \<^verbatim>\<open>Transfer\<close> and to a display object with exactly the entries \<^verbatim>\<open>Recipient\<close>
  (the target argument's own string, undefined when there is no target),
  \<^verbatim>\<open>Amount\<close> (the fixed-point quotient of the motes by \<open>10\<^sup>9\<close> followed by
  \<^verbatim>\<open> CSPR\<close>), \<^verbatim>\<open>Motes\<close> (the amount argument's own string) and
  \<^verbatim>\<open>Transfer ID\<close> (the id argument's own string, undefined when there is no id); an
  amount of 10000000000000 motes is displayed as \<^verbatim>\<open>10000.0 CSPR\<close>.
\<close>

theorem transfer_display:
  assumes "getDeploy tx = Some d" and "isTransfer d" and "transfer (session d) = Some t"
  shows "\<exists>info. transactionToObject k tx key = Inr info
     \<and> deployType info = ''Transfer''
     \<and> dom (deployArgs info) = {''Recipient'', ''Amount'', ''Motes'', ''Transfer ID''}
     \<and> deployArgs info ''Recipient''
         = Some (case map_of t ''target'' of
                   None \<Rightarrow> Undefined | Some v \<Rightarrow> Defined (Str (toString k v)))
     \<and> deployArgs info ''Amount''
         = Some (Defined (Str (convertMotesToCasper
                                 (case map_of t ''amount'' of
                                    None \<Rightarrow> [] | Some v \<Rightarrow> toString k v) @ '' CSPR'')))
     \<and> deployArgs info ''Motes''
         = Some (Defined (Str (case map_of t ''amount'' of
                                 None \<Rightarrow> [] | Some v \<Rightarrow> toString k v)))
     \<and> deployArgs info ''Transfer ID''
         = Some (case map_of t ''id'' of
                   None \<Rightarrow> Undefined | Some v \<Rightarrow> Defined (Str (toString k v)))
     \<and> (\<forall>v. map_of t ''amount'' = Some v \<and> toString k v = ''10000000000000'' \<longrightarrow>
           deployArgs info ''Amount'' = Some (Defined (Str ''10000.0 CSPR'')))"
  using assms
  by (auto simp: transactionToObject_def sessionArgs_def deployTypeOf_def Let_def
        parseTransferData_def convert_sample_transfer)

theorem transfer_display_witness:
  "getDeploy (sampleTransaction sampleTransferDeploy) = Some sampleTransferDeploy
   \<and> isTransfer sampleTransferDeploy
   \<and> transfer (session sampleTransferDeploy) = Some sampleTransferArgs
   \<and> (\<exists>info. transactionToObject payloadSdk (sampleTransaction sampleTransferDeploy) ''02025e3c''
               = Inr info
        \<and> deployType info = ''Transfer''
        \<and> dom (deployArgs info) = {''Recipient'', ''Amount'', ''Motes'', ''Transfer ID''}
        \<and> deployArgs info ''Recipient''
            = Some (Defined (Str ''010068920746ecf5870e18911EE1fC5db975E0e97fFFcBBF52f5045Ad6C9838D2F''))
        \<and> deployArgs info ''Amount'' = Some (Defined (Str ''10000.0 CSPR''))
        \<and> deployArgs info ''Motes'' = Some (Defined (Str ''10000000000000''))
        \<and> deployArgs info ''Transfer ID'' = Some (Defined (Str ''35'')))"
proof -
  have d: "getDeploy (sampleTransaction sampleTransferDeploy) = Some sampleTransferDeploy"
    by (simp add: sampleTransaction_def)
  have i: "isTransfer sampleTransferDeploy"
    by (simp add: sampleTransferDeploy_def sampleDeployOf_def)
  have t: "transfer (session sampleTransferDeploy) = Some sampleTransferArgs"
    by (simp add: sampleTransferDeploy_def sampleDeployOf_def emptySession_def)
  have target: "map_of sampleTransferArgs ''target''
      = Some (CLPublicKey (Some ''010068920746ecf5870e18911EE1fC5db975E0e97fFFcBBF52f5045Ad6C9838D2F''))"
    and amount: "map_of sampleTransferArgs ''amount'' = Some (CLOther ''10000000000000'')"
    and ident: "map_of sampleTransferArgs ''id'' = Some (CLOption (Some (CLOther ''35'')))"
    by (simp_all add: sampleTransferArgs_def)
  from transfer_display [OF d i t, of payloadSdk "''02025e3c''"] obtain info where
    "transactionToObject payloadSdk (sampleTransaction sampleTransferDeploy) ''02025e3c'' = Inr info"
    "deployType info = ''Transfer''"
    "dom (deployArgs info) = {''Recipient'', ''Amount'', ''Motes'', ''Transfer ID''}"
    "deployArgs info ''Recipient''
       = Some (Defined (Str ''010068920746ecf5870e18911EE1fC5db975E0e97fFFcBBF52f5045Ad6C9838D2F''))"
    "deployArgs info ''Amount'' = Some (Defined (Str ''10000.0 CSPR''))"
    "deployArgs info ''Motes'' = Some (Defined (Str ''10000000000000''))"
    "deployArgs info ''Transfer ID'' = Some (Defined (Str ''35''))"
    by (auto simp: target amount ident payloadSdk_def)
  with d i t show ?thesis by blast
qed

subsection \<open>The formatter\<close>

text \<open>
  C4. The claim asks that the formatter return a display value for every supported tag.
  The code does not: on a list argument it throws a \<^verbatim>\<open>TypeError\<close>, and so do the
  Result, Map and Tuple branches, while the Option and PublicKey branches beside them
  read their payload through the container's field and succeed. A contract call that
  declares a list argument is therefore not decoded at all.
\<close>

theorem parseDeployArg_list_throws:
  "parseDeployArg plainSdk (CLList [CLOther ''1'', CLOther ''2'']) = Inl (sampleTypeError ''map'')
   \<and> parseDeployArg plainSdk (CLOption (Some (CLMap [(''a'', CLUnit)])))
       = Inl (sampleTypeError ''getMap'')
   \<and> parseDeployArg plainSdk (CLResult True CLUnit) = Inl (sampleTypeError ''value'')
   \<and> parseDeployArg plainSdk (CLTuple2 CLUnit CLUnit) = Inl (sampleTypeError ''value'')
   \<and> parseDeployArg plainSdk (CLOption (Some (CLOther ''35''))) = Inr (Str ''value'')
   \<and> transactionToObject plainSdk (sampleTransaction sampleListCall) ''02025e3c''
       = Inl (sampleTypeError ''map'')"
  by (simp add: plainSdk_def transactionToObject_def sampleTransaction_def sampleListCall_def
        sampleDeployOf_def emptySession_def sessionArgs_def storedContractOf_def Let_def)

subsection \<open>Declined confirmation\<close>

text \<open>
  C5. When a run of \<^verbatim>\<open>sign\<close> shows its confirmation dialog and the user rejects it,
  the run returns \<^verbatim>\<open>false\<close>, which is not an error result; the transaction is the one
  parsed from the request, unchanged, and the dialog is the only thing that happened: no
  signature was computed.
\<close>

theorem sign_declined:
  assumes "DialogShown content \<in> set (events (sign k h deployJson origin addressIndexArg))"
    and "snapDialog h content = Inr False"
  shows "outcome (sign k h deployJson origin addressIndexArg) = Inr Declined
     \<and> (\<exists>tx. fromJson h deployJson = Inr tx
            \<and> transactionAfter (sign k h deployJson origin addressIndexArg) = Some tx)
     \<and> events (sign k h deployJson origin addressIndexArg) = [DialogShown content]"
proof -
  let ?i = "defaultIndex addressIndexArg"
  from assms(1) sign_outside_try [of h addressIndexArg k deployJson origin]
  obtain publicKeyHex where
    pk: "getCSPRAddress h ?i = Inr (PublicKeyResult publicKeyHex)" "publicKeyHex \<noteq> []"
    by fastforce
  note run = sign_enters_try [OF pk, of k deployJson origin]
  from assms(1)
  have "DialogShown content \<in> set (events (signTry k h deployJson origin ?i publicKeyHex))"
    by (simp add: run)
  from signTry_dialog [OF this] obtain tx addressKey info where
    pre: "fromJson h deployJson = Inr tx" "deriveAddressKey h ?i = Inr addressKey"
      "transactionToObject k tx publicKeyHex = Inr info"
    and c: "content = \<lparr>dialogOrigin = origin, dialogInfo = info, dialogTransaction = tx\<rparr>"
    by blast
  from assms(2) c
  have "snapDialog h \<lparr>dialogOrigin = origin, dialogInfo = info, dialogTransaction = tx\<rparr>
          = Inr False"
    by simp
  from signTry_declined [OF pre this] show ?thesis
    by (simp add: run pre c afterTry_def)
qed

theorem sign_declined_witness:
  "DialogShown sampleDialog
     \<in> set (events (sign plainSdk (sampleHost ''ed25519'' False True) ''deploy''
                      ''https://example.org'' None))
   \<and> snapDialog (sampleHost ''ed25519'' False True) sampleDialog = Inr False
   \<and> outcome (sign plainSdk (sampleHost ''ed25519'' False True) ''deploy''
                ''https://example.org'' None) = Inr Declined
   \<and> transactionAfter (sign plainSdk (sampleHost ''ed25519'' False True) ''deploy''
                         ''https://example.org'' None)
       = Some (sampleTransaction sampleModuleDeploy)
   \<and> events (sign plainSdk (sampleHost ''ed25519'' False True) ''deploy''
               ''https://example.org'' None) = [DialogShown sampleDialog]"
proof -
  have pk: "''02025e3c'' \<noteq> []" by simp
  have shown: "DialogShown sampleDialog
     \<in> set (events (sign plainSdk (sampleHost ''ed25519'' False True) ''deploy''
                      ''https://example.org'' None))"
    by (simp add: sign_enters_try [OF sample_address pk]
          signTry_declined [OF sample_fromJson sample_key sample_info
            sample_answer [unfolded sampleDialog_def]]
          sampleDialog_def)
  have no: "snapDialog (sampleHost ''ed25519'' False True) sampleDialog = Inr False"
    by (rule sample_answer)
  from sign_declined [OF shown no] shown no show ?thesis
    by (simp add: sample_fromJson)
qed

subsection \<open>Validation after signing\<close>

text \<open>
  C6. \<^verbatim>\<open>addSignatureAndValidateTransaction\<close> attaches the signature and then runs the
  transaction's validation on the signed transaction: when it succeeds the result is the
  signed transaction in JSON form, when it fails the result is an error; in either case
  the transaction keeps the signature.
\<close>

theorem addSignature_then_validate:
  assumes "publicKeyFromHex h publicKeyHex = Inr signer"
  shows "(validate h (setSignature tx signature signer) = Inr True \<longrightarrow>
            fst (addSignatureAndValidateTransaction h tx signature publicKeyHex)
              = Inr (DeployResult (toJSON h (setSignature tx signature signer))))
       \<and> (validate h (setSignature tx signature signer) = Inr False \<longrightarrow>
            fst (addSignatureAndValidateTransaction h tx signature publicKeyHex)
              = Inr (ErrorResult ''Unable to verify deploy after signature.''))
       \<and> snd (addSignatureAndValidateTransaction h tx signature publicKeyHex)
            = setSignature tx signature signer
       \<and> approvals (snd (addSignatureAndValidateTransaction h tx signature publicKeyHex))
            = approvals tx @ [(signature, signer)]"
  using assms
  by (auto simp: addSignatureAndValidateTransaction_def Let_def setSignature_def
        split: sum.splits)

theorem addSignature_then_validate_witness:
  "publicKeyFromHex (sampleHost ''ed25519'' True False) ''02025e3c'' = Inr ''02025e3c''
   \<and> validate (sampleHost ''ed25519'' True False)
        (setSignature (sampleTransaction sampleModuleDeploy) [7, 7] ''02025e3c'') = Inr False
   \<and> validate (sampleHost ''ed25519'' True True)
        (setSignature (sampleTransaction sampleModuleDeploy) [7, 7] ''02025e3c'') = Inr True
   \<and> addSignatureAndValidateTransaction (sampleHost ''ed25519'' True False)
        (sampleTransaction sampleModuleDeploy) [7, 7] ''02025e3c''
       = (Inr (ErrorResult ''Unable to verify deploy after signature.''),
          setSignature (sampleTransaction sampleModuleDeploy) [7, 7] ''02025e3c'')
   \<and> addSignatureAndValidateTransaction (sampleHost ''ed25519'' True True)
        (sampleTransaction sampleModuleDeploy) [7, 7] ''02025e3c''
       = (Inr (DeployResult ''signed''),
          setSignature (sampleTransaction sampleModuleDeploy) [7, 7] ''02025e3c'')
   \<and> approvals (snd (addSignatureAndValidateTransaction (sampleHost ''ed25519'' True False)
                         (sampleTransaction sampleModuleDeploy) [7, 7] ''02025e3c''))
       = [([7, 7], ''02025e3c'')]"
proof -
  have signer: "publicKeyFromHex (sampleHost c a v) ''02025e3c'' = Inr ''02025e3c''" for c a v
    by (simp add: sampleHost_def)
  have verdict: "validate (sampleHost c a v) t = Inr v" for c a v t
    by (simp add: sampleHost_def)
  have json: "toJSON (sampleHost c a v) t = ''signed''" for c a v t
    by (simp add: sampleHost_def)
  have none: "approvals (sampleTransaction sampleModuleDeploy) = []"
    by (simp add: sampleTransaction_def)
  from addSignature_then_validate [OF signer, of "''ed25519''" True False
      "sampleTransaction sampleModuleDeploy" "[7, 7]"]
    addSignature_then_validate [OF signer, of "''ed25519''" True True
      "sampleTransaction sampleModuleDeploy" "[7, 7]"]
  show ?thesis
    by (simp add: signer verdict json none prod_eq_iff setSignature_def)
qed

subsection \<open>The kind of a legacy deploy\<close>

text \<open>
  C7. The kind of a decoded legacy deploy is one of \<^verbatim>\<open>Transfer\<close>,
  \<^verbatim>\<open>WASM-Based Deploy\<close>, \<^verbatim>\<open>Contract Call\<close> and \<^verbatim>\<open>Contract Package Call\<close>,
  chosen by the first test that succeeds, in this order: transfer, module bytes, stored
  contract by hash or by name, otherwise package call. A transfer is labelled
  \<^verbatim>\<open>Transfer\<close> whatever the later tests would answer.
\<close>

theorem deploy_kind_priority:
  assumes "getDeploy tx = Some d" and "transactionToObject k tx key = Inr info"
  shows "deployType info
           \<in> {''Transfer'', ''WASM-Based Deploy'', ''Contract Call'', ''Contract Package Call''}
     \<and> (isTransfer d \<longrightarrow> deployType info = ''Transfer'')
     \<and> (\<not> isTransfer d \<and> isModuleBytes (session d) \<longrightarrow>
           deployType info = ''WASM-Based Deploy'')
     \<and> (\<not> isTransfer d \<and> \<not> isModuleBytes (session d)
          \<and> (isStoredContractByHash (session d) \<or> isStoredContractByName (session d)) \<longrightarrow>
           deployType info = ''Contract Call'')
     \<and> (\<not> isTransfer d \<and> \<not> isModuleBytes (session d)
          \<and> \<not> isStoredContractByHash (session d) \<and> \<not> isStoredContractByName (session d) \<longrightarrow>
           deployType info = ''Contract Package Call'')"
  using deployType_of_deploy [OF assms]
  by (simp add: deployTypeOf_def)

theorem deploy_kind_priority_witness:
  "getDeploy (sampleTransaction sampleAmbiguousDeploy) = Some sampleAmbiguousDeploy
   \<and> isTransfer sampleAmbiguousDeploy
   \<and> isModuleBytes (session sampleAmbiguousDeploy)
   \<and> \<not> isl (transactionToObject payloadSdk (sampleTransaction sampleAmbiguousDeploy) ''02025e3c'')
   \<and> deployType (projr (transactionToObject payloadSdk (sampleTransaction sampleAmbiguousDeploy)
                           ''02025e3c'')) = ''Transfer''"
proof -
  have d: "getDeploy (sampleTransaction sampleAmbiguousDeploy) = Some sampleAmbiguousDeploy"
    by (simp add: sampleTransaction_def)
  have flags: "isTransfer sampleAmbiguousDeploy" "isModuleBytes (session sampleAmbiguousDeploy)"
    by (simp_all add: sampleAmbiguousDeploy_def sampleDeployOf_def emptySession_def)
  have t: "transfer (session sampleAmbiguousDeploy) = Some sampleTransferArgs"
    by (simp add: sampleAmbiguousDeploy_def sampleDeployOf_def emptySession_def)
  have ok: "\<not> isl (transactionToObject payloadSdk (sampleTransaction sampleAmbiguousDeploy)
                    ''02025e3c'')"
    by (simp add: transactionToObject_def sessionArgs_def Let_def d t)
  then have decoded:
    "transactionToObject payloadSdk (sampleTransaction sampleAmbiguousDeploy) ''02025e3c''
       = Inr (projr (transactionToObject payloadSdk (sampleTransaction sampleAmbiguousDeploy)
                       ''02025e3c''))"
    by (cases "transactionToObject payloadSdk (sampleTransaction sampleAmbiguousDeploy)
                 ''02025e3c''") simp_all
  from deploy_kind_priority [OF d decoded] d flags ok show ?thesis
    by simp
qed

subsection \<open>Sessions that cannot be parsed\<close>

text \<open>
  C8. A legacy deploy whose session is neither a transfer nor module bytes and has none
  of the four stored-contract variants is not decoded: \<^verbatim>\<open>transactionToObject\<close> throws,
  and the message of the error it builds ends with the session's bytes.
\<close>

theorem unparseable_session:
  assumes "getDeploy tx = Some d"
    and "transfer (session d) = None" and "moduleBytes (session d) = None"
    and "storedContractByHash (session d) = None"
    and "storedContractByName (session d) = None"
    and "storedVersionedContractByHash (session d) = None"
    and "storedVersionedContractByName (session d) = None"
  shows "\<exists>e. transactionToObject k tx key = Inl e
     \<and> (\<forall>code. bytes (session d) = Inr code \<longrightarrow>
           message e = ''Stored Contract could not be parsed.'' @ [CHR 0x0A]
                       @ ''          Provided session code: '' @ code)"
  using assms
  by (auto simp: transactionToObject_def sessionArgs_def storedContractOf_def
        unparseableSession_def newError_def Let_def)

theorem unparseable_session_witness:
  "getDeploy (sampleTransaction (sampleDeployOf False emptySession))
     = Some (sampleDeployOf False emptySession)
   \<and> transfer emptySession = None \<and> moduleBytes emptySession = None
   \<and> storedContractByHash emptySession = None \<and> storedContractByName emptySession = None
   \<and> storedVersionedContractByHash emptySession = None
   \<and> storedVersionedContractByName emptySession = None
   \<and> bytes emptySession = Inr ''2,1,0''
   \<and> (\<exists>e. transactionToObject plainSdk (sampleTransaction (sampleDeployOf False emptySession))
             ''02025e3c'' = Inl e
          \<and> message e = ''Stored Contract could not be parsed.'' @ [CHR 0x0A]
                         @ ''          Provided session code: 2,1,0'')"
proof -
  have d: "getDeploy (sampleTransaction (sampleDeployOf False emptySession))
             = Some (sampleDeployOf False emptySession)"
    by (simp add: sampleTransaction_def)
  have s: "session (sampleDeployOf False emptySession) = emptySession"
    by (simp add: sampleDeployOf_def)
  have none: "transfer emptySession = None" "moduleBytes emptySession = None"
    "storedContractByHash emptySession = None" "storedContractByName emptySession = None"
    "storedVersionedContractByHash emptySession = None"
    "storedVersionedContractByName emptySession = None"
    and code: "bytes emptySession = Inr ''2,1,0''"
    by (simp_all add: emptySession_def)
  have absent: "transfer (session (sampleDeployOf False emptySession)) = None"
    "moduleBytes (session (sampleDeployOf False emptySession)) = None"
    "storedContractByHash (session (sampleDeployOf False emptySession)) = None"
    "storedContractByName (session (sampleDeployOf False emptySession)) = None"
    "storedVersionedContractByHash (session (sampleDeployOf False emptySession)) = None"
    "storedVersionedContractByName (session (sampleDeployOf False emptySession)) = None"
    by (simp_all add: s none)
  from unparseable_session [OF d absent, of plainSdk "''02025e3c''"]
  obtain e where
    "transactionToObject plainSdk (sampleTransaction (sampleDeployOf False emptySession))
       ''02025e3c'' = Inl e"
    "message e = ''Stored Contract could not be parsed.'' @ [CHR 0x0A]
                 @ ''          Provided session code: 2,1,0''"
    by (auto simp: s code)
  with d none code show ?thesis by blast
qed

subsection \<open>Failing before the signing steps\<close>

text \<open>
  C9. With a deriver that refuses negative indices, \<^verbatim>\<open>sign\<close> at a negative index
  throws the deriver's error; no transaction object is built, no dialog is shown and no
  signature is computed.
\<close>

theorem sign_negative_index:
  assumes "rejectsNegativeIndex h" and "i < 0"
  shows "\<exists>e. deriveAddressKey h i = Inl e \<and> message e = invalidIndexMessage
     \<and> sign k h deployJson origin (Some i)
         = \<lparr>outcome = Inl e, transactionAfter = None, events = []\<rparr>"
  using assms
  by (auto simp: rejectsNegativeIndex_def sign_def getCSPRAddress_def defaultIndex_def)

theorem sign_negative_index_witness:
  "rejectsNegativeIndex (sampleHost ''secp256k1'' True True) \<and> (- 1 :: int) < 0
   \<and> sign plainSdk (sampleHost ''secp256k1'' True True) ''deploy'' ''https://example.org''
        (Some (- 1))
       = \<lparr>outcome = Inl (newError invalidIndexMessage), transactionAfter = None, events = []\<rparr>"
proof -
  have refuses: "rejectsNegativeIndex (sampleHost ''secp256k1'' True True)"
    by (simp add: rejectsNegativeIndex_def sampleHost_def newError_def)
  have negative: "(- 1 :: int) < 0" by simp
  have thrown: "deriveAddressKey (sampleHost ''secp256k1'' True True) (- 1)
                  = Inl (newError invalidIndexMessage)"
    by (simp add: sampleHost_def)
  from sign_negative_index [OF refuses negative, of plainSdk "''deploy''" "''https://example.org''"]
    refuses thrown
  show ?thesis by auto
qed

subsection \<open>The entry point entry\<close>

text \<open>
  C10. When a legacy deploy with a stored-contract session is decoded, the display object
  is the object the loop over the declared arguments has filled, with the entry
  \<^verbatim>\<open>Entry Point\<close> written after the loop: under that name the object holds the
  session's entry point, also when the session declares an argument of that name, whose
  formatted value is then not in the object.
\<close>

theorem entry_point_written_last:
  assumes "getDeploy tx = Some d"
    and "transfer (session d) = None" and "moduleBytes (session d) = None"
    and "storedContractOf (session d) = Some c"
    and "transactionToObject k tx key = Inr info"
  shows "\<exists>args. forEachArg k (contractArgs c) Map.empty = Inr args
     \<and> deployArgs info = objSet args ''Entry Point'' (Defined (Str (entryPoint c)))
     \<and> deployArgs info ''Entry Point'' = Some (Defined (Str (entryPoint c)))"
  using assms
  by (auto simp: transactionToObject_def sessionArgs_def objSet_def Let_def split: sum.splits)

theorem entry_point_written_last_witness:
  "getDeploy (sampleTransaction sampleContractCall) = Some sampleContractCall
   \<and> transfer (session sampleContractCall) = None
   \<and> moduleBytes (session sampleContractCall) = None
   \<and> storedContractOf (session sampleContractCall) = Some sampleContract
   \<and> \<not> isl (transactionToObject payloadSdk (sampleTransaction sampleContractCall) ''02025e3c'')
   \<and> map_of (contractArgs sampleContract) ''Entry Point'' = Some (CLOther ''burn'')
   \<and> parseDeployArg payloadSdk (CLOther ''burn'') = Inr (Str ''burn'')
   \<and> deployArgs (projr (transactionToObject payloadSdk (sampleTransaction sampleContractCall)
                          ''02025e3c'')) ''Entry Point''
       = Some (Defined (Str ''mint''))
   \<and> deployArgs (projr (transactionToObject payloadSdk (sampleTransaction sampleContractCall)
                          ''02025e3c'')) ''n''
       = Some (Defined (Str ''7''))"
proof -
  let ?view = "transactionToObject payloadSdk (sampleTransaction sampleContractCall) ''02025e3c''"
  have d: "getDeploy (sampleTransaction sampleContractCall) = Some sampleContractCall"
    by (simp add: sampleTransaction_def)
  have s: "transfer (session sampleContractCall) = None"
    "moduleBytes (session sampleContractCall) = None"
    "storedContractOf (session sampleContractCall) = Some sampleContract"
    by (simp_all add: sampleContractCall_def sampleDeployOf_def emptySession_def
          storedContractOf_def)
  have declared: "map_of (contractArgs sampleContract) ''Entry Point'' = Some (CLOther ''burn'')"
    "parseDeployArg payloadSdk (CLOther ''burn'') = Inr (Str ''burn'')"
    by (simp_all add: sampleContract_def payloadSdk_def)
  have filled: "forEachArg payloadSdk (contractArgs sampleContract) Map.empty
      = Inr (Map.empty(''Entry Point'' \<mapsto> Defined (Str ''burn''), ''n'' \<mapsto> Defined (Str ''7'')))"
    by (simp add: sampleContract_def payloadSdk_def objSet_def)
  have ok: "\<not> isl ?view"
    by (simp add: transactionToObject_def sessionArgs_def Let_def d s filled)
  then have decoded: "?view = Inr (projr ?view)"
    by (cases ?view) simp_all
  from entry_point_written_last [OF d s decoded] have
    "deployArgs (projr ?view) ''Entry Point'' = Some (Defined (Str ''mint''))"
    "deployArgs (projr ?view) ''n'' = Some (Defined (Str ''7''))"
    by (auto simp: filled objSet_def sampleContract_def payloadSdk_def)
  with d s ok declared show ?thesis by blast
qed

end
